theory Spec2Isabelle
  imports Main
begin

section \<open>JavaScript values the handlers rely on\<close>

text \<open>
  Strings are byte strings. An attribute that may be missing from an item is an
  \<open>option\<close>; JavaScript's truthiness of such an attribute (\<open>x || d\<close>, \<open>x && e\<close>,
  \<open>if (x)\<close>) is \<open>truthyS\<close> for strings (missing and the empty string are falsy) and
  \<open>truthyN\<close> for numbers (missing and 0 are falsy).
\<close>

definition truthyS :: "string option \<Rightarrow> bool" where
  "truthyS v = (case v of None \<Rightarrow> False | Some s \<Rightarrow> s \<noteq> [])"

definition truthyN :: "int option \<Rightarrow> bool" where
  "truthyN v = (case v of None \<Rightarrow> False | Some n \<Rightarrow> n \<noteq> 0)"

text \<open>\<open>x || d\<close> on a string attribute.\<close>

definition orElse :: "string option \<Rightarrow> string \<Rightarrow> string" where
  "orElse v d = (case v of None \<Rightarrow> d | Some s \<Rightarrow> if s = [] then d else s)"

text \<open>The remainder operator \<open>%\<close>: the result has the sign of the dividend.\<close>

definition jsRem :: "int \<Rightarrow> int \<Rightarrow> int" where
  "jsRem a b = sgn a * (\<bar>a\<bar> mod \<bar>b\<bar>)"

text \<open>Decimal rendering of an integer inside a template string.\<close>

fun showNat :: "nat \<Rightarrow> string" where
  "showNat n =
     (if n < 10 then [char_of (48 + n)]
      else showNat (n div 10) @ [char_of (48 + n mod 10)])"

declare showNat.simps [simp del]

definition showInt :: "int \<Rightarrow> string" where
  "showInt i = (if i < 0 then CHR ''-'' # showNat (nat (- i)) else showNat (nat i))"

text \<open>\<open>toLowerCase\<close> on the ASCII letters, and \<open>s.includes(sub)\<close> (\<open>includesStr\<close>).\<close>

definition lowerChar :: "char \<Rightarrow> char" where
  "lowerChar c =
     (if c \<in> set ''ABCDEFGHIJKLMNOPQRSTUVWXYZ'' then char_of (of_char c + (32::nat)) else c)"

definition toLowerCase :: "string \<Rightarrow> string" where
  "toLowerCase s = map lowerChar s"

fun includesStr :: "string \<Rightarrow> string \<Rightarrow> bool" where
  "includesStr [] sub = (sub = [])"
| "includesStr (c # cs) sub = (take (length sub) (c # cs) = sub \<or> includesStr cs sub)"

section \<open>Rate limiter (lambda/shared/rate-limiter)\<close>

datatype userRole = Free | Premium | Admin

datatype action = Create | Redirect | Analytics

record RateLimit =
  requests :: int
  window :: int

fun RATE_LIMITS :: "userRole \<Rightarrow> action \<Rightarrow> RateLimit" where
  "RATE_LIMITS Free Create = \<lparr>requests = 10, window = 3600\<rparr>"
| "RATE_LIMITS Free Redirect = \<lparr>requests = 1000, window = 3600\<rparr>"
| "RATE_LIMITS Free Analytics = \<lparr>requests = 50, window = 3600\<rparr>"
| "RATE_LIMITS Premium Create = \<lparr>requests = 100, window = 3600\<rparr>"
| "RATE_LIMITS Premium Redirect = \<lparr>requests = 10000, window = 3600\<rparr>"
| "RATE_LIMITS Premium Analytics = \<lparr>requests = 500, window = 3600\<rparr>"
| "RATE_LIMITS Admin Create = \<lparr>requests = 1000, window = 3600\<rparr>"
| "RATE_LIMITS Admin Redirect = \<lparr>requests = 100000, window = 3600\<rparr>"
| "RATE_LIMITS Admin Analytics = \<lparr>requests = 5000, window = 3600\<rparr>"

record RateLimitResult =
  allowed :: bool
  remaining :: int
  resetTime :: int
  retryAfter :: "int option"

record RateLimitOptions =
  rlIdentifier :: string
  optAction :: action
  optUserRole :: "userRole option"
  increment :: "int option"

text \<open>
  One item of the rate-limit table, and the table keyed by \<open>pk\<close>. \<open>requestCount\<close> is an
  attribute the \<open>ADD\<close> clause creates (from 0) when the item or the attribute is missing.
\<close>

record RateLimitItem =
  requestCount :: int
  ttl :: int
  windowStart :: int
  windowEnd :: int

type_synonym RateLimitTable = "string \<rightharpoonup> RateLimitItem"

definition actionName :: "action \<Rightarrow> string" where
  "actionName a = (case a of Create \<Rightarrow> ''create'' | Redirect \<Rightarrow> ''redirect''
                   | Analytics \<Rightarrow> ''analytics'')"

text \<open>\<open>Math.floor(Date.now() / 1000)\<close>, from the clock in milliseconds.\<close>

definition nowSeconds :: "int \<Rightarrow> int" where
  "nowSeconds ms = ms div 1000"

definition limitOf :: "RateLimitOptions \<Rightarrow> RateLimit" where
  "limitOf opts =
     RATE_LIMITS (case optUserRole opts of None \<Rightarrow> Free | Some r \<Rightarrow> r) (optAction opts)"

definition windowStartAt :: "RateLimit \<Rightarrow> int \<Rightarrow> int" where
  "windowStartAt limit now = now - jsRem now (window limit)"

definition partitionKey :: "RateLimitOptions \<Rightarrow> int \<Rightarrow> string" where
  "partitionKey opts ws =
     rlIdentifier opts @ '':'' @ actionName (optAction opts) @ '':'' @ showInt ws"



text \<open>
  \<open>RateLimiter.getRateLimitStatus\<close>: a read without an increment, compared with
  strict less-than.
\<close>

definition getRateLimitStatus ::
  "RateLimitOptions \<Rightarrow> int \<Rightarrow> string option \<Rightarrow> RateLimitTable \<Rightarrow> RateLimitResult" where
  "getRateLimitStatus opts ms storeError tbl =
     (let limit = limitOf opts;
          now = nowSeconds ms;
          ws = windowStartAt limit now;
          we = ws + window limit;
          pk = partitionKey opts ws
      in case storeError of
           Some e \<Rightarrow>
             \<lparr>allowed = True, remaining = requests limit, resetTime = we, retryAfter = None\<rparr>
         | None \<Rightarrow>
             (let currentCount = (case tbl pk of None \<Rightarrow> 0 | Some it \<Rightarrow> requestCount it);
                  isAllowed = (currentCount < requests limit)
              in \<lparr>allowed = isAllowed,
                   remaining = max 0 (requests limit - currentCount),
                   resetTime = we,
                   retryAfter = (if isAllowed then None else Some (we - now))\<rparr>))"


section \<open>The runtime and the store\<close>

text \<open>
  What the handlers obtain from the platform is a parameter: the URL parser
  (\<open>new URL(s)\<close>, \<open>None\<close> when it throws), the SHA-256 hex digest, the user-agent
  parser (\<open>new UAParser(ua).getResult()\<close>, \<open>None\<close> when it throws) and the
  environment variables the handlers read.
\<close>

record URL =
  hostname :: string
  origin :: string

record UAResult =
  browserName :: "string option"
  browserVersionUA :: "string option"
  osName :: "string option"
  osVersionUA :: "string option"
  deviceType :: "string option"

record Runtime =
  parseURL :: "string \<Rightarrow> URL option"
  sha256hex :: "string \<Rightarrow> string"
  parseUA :: "string option \<Rightarrow> UAResult option"
  domainName :: string
  ipSalt :: string

text \<open>An item of the links table (key \<open>shortCode\<close>) and of the analytics table
  (key \<open>shortCode\<close>, \<open>timestamp\<close>).\<close>

record Metadata =
  title :: string
  description :: string
  favicon :: string

record LinkItem =
  shortCode :: string
  originalUrl :: string
  originalUrlHash :: string
  createdAt :: int
  expiresAt :: "int option"
  userId :: "string option"
  clickCount :: int
  isCustom :: bool
  metadata :: "Metadata option"
  lastClickAt :: "int option"

datatype EventType = SUCCESS | NOT_FOUND | EXPIRED

record ClickItem =
  evShortCode :: string
  timestamp :: int
  eventType :: EventType
  userAgent :: string
  referer :: "string option"
  ipHash :: string
  browser :: "string option"
  browserVersion :: "string option"
  os :: "string option"
  osVersion :: "string option"
  device :: "string option"
  country :: "string option"
  hourPartition :: string
  evExpiresAt :: int

text \<open>
  The store is shared with other clients and may fail. For each coming call of
  \<open>dynamodb.send\<close> the schedule says what the store does: it serves the call, it throws
  an error of the given name, or it first serves another client's conditional put of a
  link item and then this call. An empty schedule serves every call.
\<close>

datatype StoreEvent = Served | Throws string | Preceded LinkItem

text \<open>
  The commands the handlers send, each with the error it ended in (if any), as a test
  double of the client would record them.
\<close>

datatype StoreCall =
    GetItemCall string
  | PutItemCall LinkItem
  | QueryUrlHashCall string
  | UpdateItemCall string
  | PutClickCall ClickItem
  | QueryClicksCall "nat option"

text \<open>
  The world of a handler invocation: the two tables (in the order the items were
  written), the store's schedule, the commands sent so far and the bytes the random
  source will deliver. An invocation is taken as instantaneous: every \<open>Date.now()\<close>
  inside it reads the same instant \<open>now\<close> (milliseconds), a parameter of the handler.
\<close>

record World =
  links :: "LinkItem list"
  clickLog :: "ClickItem list"
  schedule :: "StoreEvent list"
  sent :: "(StoreCall \<times> string option) list"
  random :: "nat list"

definition getLink :: "LinkItem list \<Rightarrow> string \<Rightarrow> LinkItem option" where
  "getLink tbl code = find (\<lambda>i. shortCode i = code) tbl"

text \<open>A put under \<open>attribute_not_exists(shortCode)\<close>: \<open>None\<close> when the condition fails.\<close>

definition putIfAbsent :: "LinkItem \<Rightarrow> LinkItem list \<Rightarrow> LinkItem list option" where
  "putIfAbsent item tbl =
     (case getLink tbl (shortCode item) of None \<Rightarrow> Some (tbl @ [item]) | Some _ \<Rightarrow> None)"

text \<open>
  What the store does at the next call: \<open>Some e\<close> when the call throws \<open>e\<close>, \<open>None\<close>
  when it is served, on the world it is served on.
\<close>

definition nextEvent :: "World \<Rightarrow> string option \<times> World" where
  "nextEvent w =
     (case schedule w of
        [] \<Rightarrow> (None, w)
      | Served # es \<Rightarrow> (None, w\<lparr>schedule := es\<rparr>)
      | Throws e # es \<Rightarrow> (Some e, w\<lparr>schedule := es\<rparr>)
      | Preceded item # es \<Rightarrow>
          (None, w\<lparr>schedule := es,
                   links := (case putIfAbsent item (links w) of None \<Rightarrow> links w
                             | Some tbl \<Rightarrow> tbl)\<rparr>))"

definition recorded :: "StoreCall \<Rightarrow> (string + 'a) \<times> World \<Rightarrow> (string + 'a) \<times> World" where
  "recorded call rw =
     (fst rw,
      (snd rw)\<lparr>sent := sent (snd rw)
                 @ [(call, case fst rw of Inl e \<Rightarrow> Some e | Inr _ \<Rightarrow> None)]\<rparr>)"

text \<open>
  \<open>dynamodb.send\<close>: the command throws or is served (by \<open>serve\<close>, which may itself end
  in an error of the store), and it is recorded with the error it ended in.
\<close>

definition send ::
  "StoreCall \<Rightarrow> (World \<Rightarrow> (string + 'a) \<times> World) \<Rightarrow> World \<Rightarrow> (string + 'a) \<times> World" where
  "send call serve w =
     recorded call (case nextEvent w of
                      (Some e, w') \<Rightarrow> (Inl e, w')
                    | (None, w') \<Rightarrow> serve w')"

text \<open>\<open>GetItemCommand\<close> on the links table.\<close>

definition GetItem :: "string \<Rightarrow> World \<Rightarrow> (string + LinkItem option) \<times> World" where
  "GetItem code = send (GetItemCall code) (\<lambda>w. (Inr (getLink (links w) code), w))"

text \<open>\<open>PutItemCommand\<close> on the links table with
  \<open>ConditionExpression: attribute_not_exists(shortCode)\<close>.\<close>

definition PutItem :: "LinkItem \<Rightarrow> World \<Rightarrow> (string + unit) \<times> World" where
  "PutItem item =
     send (PutItemCall item)
       (\<lambda>w. case putIfAbsent item (links w) of
               None \<Rightarrow> (Inl ''ConditionalCheckFailedException'', w)
             | Some tbl \<Rightarrow> (Inr (), w\<lparr>links := tbl\<rparr>))"

text \<open>
  \<open>QueryCommand\<close> on \<open>OriginalUrlIndex\<close> with \<open>Limit: 1\<close>. The index has no sort key;
  the items of one hash are returned in the order they were written.
\<close>

definition QueryByUrlHash :: "string \<Rightarrow> World \<Rightarrow> (string + LinkItem list) \<times> World" where
  "QueryByUrlHash h =
     send (QueryUrlHashCall h)
       (\<lambda>w. (Inr (take 1 (filter (\<lambda>i. originalUrlHash i = h) (links w))), w))"

text \<open>\<open>PutItemCommand\<close> on the analytics table: an item of the same key is replaced.\<close>

definition PutClick :: "ClickItem \<Rightarrow> World \<Rightarrow> (string + unit) \<times> World" where
  "PutClick item =
     send (PutClickCall item)
       (\<lambda>w. (Inr (), w\<lparr>clickLog :=
                 filter (\<lambda>c. \<not> (evShortCode c = evShortCode item \<and> timestamp c = timestamp item))
                   (clickLog w) @ [item]\<rparr>))"

text \<open>
  \<open>UpdateItemCommand\<close> with \<open>ADD clickCount :inc SET lastClickAt = :timestamp\<close> on the
  links table. The handler sends it only for a code it has just read; the update of
  a code that is in the table no longer is left out.
\<close>

definition UpdateClickCount :: "string \<Rightarrow> int \<Rightarrow> World \<Rightarrow> (string + unit) \<times> World" where
  "UpdateClickCount code now =
     send (UpdateItemCall code)
       (\<lambda>w. (Inr (), w\<lparr>links :=
                 map (\<lambda>i. if shortCode i = code
                           then i\<lparr>clickCount := clickCount i + 1, lastClickAt := Some now\<rparr>
                           else i) (links w)\<rparr>))"


section \<open>Link creation (lambda/create)\<close>

subsection \<open>The identifier generator\<close>

text \<open>The alphabet handed to \<open>customAlphabet\<close>, with the code length 8.\<close>

definition alphabet :: string where
  "alphabet = ''23456789ABCDEFGHJKLMNPQRSTUVWXYZabcdefghijkmnpqrstuvwxyz''"

definition codeSize :: nat where
  "codeSize = 8"

text \<open>
  \<open>customAlphabet\<close> is the nanoid library's. Its generator masks each random byte
  with the smallest \<open>2^k - 1\<close> that covers the alphabet's indices and skips a masked
  byte that is no index of the alphabet; it asks the random source for \<open>step\<close> bytes
  at a time and reads each batch from its end:
  \<^verbatim>\<open>mask = (2 << (31 - Math.clz32((alphabet.length - 1) | 1))) - 1\<close>,
  \<^verbatim>\<open>step = Math.ceil((1.6 * mask * size) / alphabet.length)\<close>,
  \<^verbatim>\<open>while (true) { bytes = random(step); i = step;
     while (i--) { id += alphabet[bytes[i] & mask] || ''; if (id.length >= size) return id } }\<close>.
  For 56 symbols and size 8 the mask is 63 and the step is 15.
\<close>

definition nanoidMask :: nat where
  "nanoidMask = 63"

definition nanoidStep :: nat where
  "nanoidStep = 15"

text \<open>The inner loop over one batch, given in the order it is read.\<close>

fun nanoidFill :: "nat list \<Rightarrow> string \<Rightarrow> string" where
  "nanoidFill [] ident = ident"
| "nanoidFill (b # bs) ident =
     (let i = b mod (nanoidMask + 1);
          ident' = ident @ (if i < length alphabet then [alphabet ! i] else [])
      in if length ident' \<ge> codeSize then ident' else nanoidFill bs ident')"

text \<open>
  The outer loop. The random source is the list of bytes it will deliver; a source that
  runs dry before the code is complete stands for a call that does not return
  (\<open>None\<close>).
\<close>

function nanoidLoop :: "nat list \<Rightarrow> string \<Rightarrow> (string \<times> nat list) option" where
  "nanoidLoop rnd ident =
     (if length rnd < nanoidStep then None
      else (let ident' = nanoidFill (rev (take nanoidStep rnd)) ident
            in if length ident' \<ge> codeSize then Some (ident', drop nanoidStep rnd)
               else nanoidLoop (drop nanoidStep rnd) ident'))"
  by pat_completeness auto
termination
  by (relation "measure (\<lambda>(rnd, ident). length rnd)") (auto simp: nanoidStep_def)

declare nanoidLoop.simps [simp del]

definition generateShortCode :: "nat list \<Rightarrow> (string \<times> nat list) option" where
  "generateShortCode rnd = nanoidLoop rnd []"

subsection \<open>Request validation\<close>

text \<open>
  The request body: missing (or empty), not JSON, or a JSON object whose fields have
  the types the schema expects. Durations and instants are integers.
\<close>

record CreateRequest =
  url :: "string option"
  customCode :: "string option"
  expiresIn :: "int option"
  reqUserId :: "string option"

datatype RequestBody = NoBody | Malformed | Json CreateRequest

record ValidatedData =
  vUrl :: string
  vCustomCode :: "string option"
  vExpiresIn :: "int option"
  vUserId :: "string option"

definition startsWith :: "string \<Rightarrow> string \<Rightarrow> bool" where
  "startsWith s p = (take (length p) s = p)"

text \<open>The character class \<open>[a-zA-Z0-9-_]\<close>.\<close>

definition codeChar :: "char \<Rightarrow> bool" where
  "codeChar c =
     (c \<in> set ''abcdefghijklmnopqrstuvwxyz'' \<or> c \<in> set ''ABCDEFGHIJKLMNOPQRSTUVWXYZ''
      \<or> c \<in> set ''0123456789'' \<or> c = CHR ''-'' \<or> c = CHR ''_'')"

text \<open>\<open>/^[a-zA-Z0-9-_]{3,20}$/\<close>.\<close>

definition customCodeRegex :: "string \<Rightarrow> bool" where
  "customCodeRegex s = (3 \<le> length s \<and> length s \<le> 20 \<and> list_all codeChar s)"

text \<open>
  \<open>CreateLinkSchema.parse\<close> of the create handler: the messages of the issues in the
  order zod reports them (the fields in the schema's order, the checks of a field in
  the order they are chained), or the validated data when there is none.
\<close>

definition urlIssues :: "Runtime \<Rightarrow> string option \<Rightarrow> string list" where
  "urlIssues rt u =
     (case u of
        None \<Rightarrow> [''Required'']
      | Some s \<Rightarrow>
          (if parseURL rt s = None then [''Invalid URL format''] else []) @
          (if length s < 10 then [''URL must be at least 10 characters''] else []) @
          (if length s > 2048 then [''URL must be less than 2048 characters''] else []) @
          (if startsWith s ''http://'' \<or> startsWith s ''https://'' then []
           else [''URL must start with http:// or https://'']))"

definition customCodeIssues :: "string option \<Rightarrow> string list" where
  "customCodeIssues c =
     (case c of
        None \<Rightarrow> []
      | Some s \<Rightarrow>
          (if customCodeRegex s then []
           else [''Custom code must be 3-20 characters, alphanumeric, hyphens, or underscores only'']))"

definition expiresInIssues :: "int option \<Rightarrow> string list" where
  "expiresInIssues e =
     (case e of
        None \<Rightarrow> []
      | Some n \<Rightarrow>
          (if n < 3600 then [''Minimum expiration is 1 hour''] else []) @
          (if n > 31536000 then [''Maximum expiration is 1 year''] else []))"

definition CreateLinkSchema :: "Runtime \<Rightarrow> CreateRequest \<Rightarrow> string list + ValidatedData" where
  "CreateLinkSchema rt req =
     (let issues = urlIssues rt (url req) @ customCodeIssues (customCode req)
                     @ expiresInIssues (expiresIn req)
      in case (issues, url req) of
           ([], Some u) \<Rightarrow>
             Inr \<lparr>vUrl = u, vCustomCode = customCode req, vExpiresIn = expiresIn req,
                  vUserId = reqUserId req\<rparr>
         | _ \<Rightarrow> Inl issues)"


subsection \<open>The shared short-code schema (lambda/shared/validation)\<close>

definition reservedWords :: "string list" where
  "reservedWords =
     [''api'', ''www'', ''admin'', ''root'', ''help'', ''support'', ''contact'',
      ''about'', ''terms'', ''privacy'', ''login'', ''signup'', ''auth'',
      ''health'', ''status'', ''metrics'', ''analytics'', ''dashboard'',
      ''docs'', ''documentation'', ''blog'', ''news'', ''static'', ''assets'',
      ''public'', ''private'', ''test'', ''staging'', ''dev'', ''prod'',
      ''null'', ''undefined'', ''true'', ''false'', ''delete'', ''remove'']"

text \<open>\<open>ShortCodeSchema\<close>: the messages of its issues (none when the code is accepted).\<close>

definition ShortCodeSchema :: "string \<Rightarrow> string list" where
  "ShortCodeSchema code =
     (if customCodeRegex code then []
      else [''Short code must be 3-20 characters, alphanumeric, hyphens, or underscores only'']) @
     (if toLowerCase code \<in> set reservedWords
      then [''Short code cannot be a reserved word''] else [])"

subsection \<open>The handler\<close>

text \<open>
  What a \<open>throw\<close> carries to the handler's \<open>catch\<close>: a \<open>ZodError\<close> with its issues'
  messages, the \<open>SyntaxError\<close> of \<open>JSON.parse\<close>, an error of the store with its name,
  or a plain \<open>Error\<close> with its message.
\<close>

datatype Exn = ZodError "string list" | SyntaxError | StoreException string | JsError string

text \<open>
  The \<open>data\<close> of a success response. Instants that the source renders with
  \<open>toISOString\<close> are kept as the epoch milliseconds they render.
\<close>

record LinkData =
  rShortCode :: string
  shortUrl :: string
  rOriginalUrl :: string
  created :: bool
  rCreatedAt :: int
  rClickCount :: int
  rExpiresAt :: "int option"
  rMetadata :: "Metadata option"

text \<open>\<open>createSuccessResponse\<close> (status 201) and \<open>createErrorResponse\<close> (status, message).\<close>

datatype CreateResponse = SuccessResponse LinkData | ErrorResponse nat string

fun statusCode :: "CreateResponse \<Rightarrow> nat" where
  "statusCode (SuccessResponse d) = 201"
| "statusCode (ErrorResponse c m) = c"

definition createUrlHash :: "Runtime \<Rightarrow> string \<Rightarrow> string" where
  "createUrlHash rt u = sha256hex rt u"

definition createShortUrl :: "Runtime \<Rightarrow> string \<Rightarrow> string" where
  "createShortUrl rt code = ''https://'' @ domainName rt @ ''/'' @ code"

definition skipDomains :: "string list" where
  "skipDomains = [''api.'', ''cdn.'', ''s3.amazonaws.com'', ''storage.googleapis.com'',
                  ''github.com/raw'']"

definition shouldFetchMetadata :: "Runtime \<Rightarrow> string \<Rightarrow> bool" where
  "shouldFetchMetadata rt u =
     (case parseURL rt u of
        None \<Rightarrow> False
      | Some parsed \<Rightarrow>
          \<not> list_ex (\<lambda>d. includesStr (toLowerCase (hostname parsed)) d) skipDomains)"

text \<open>\<open>fetchUrlMetadata\<close>: the placeholder; \<open>None\<close> when \<open>new URL(url)\<close> throws.\<close>

definition fetchUrlMetadata :: "Runtime \<Rightarrow> string \<Rightarrow> Metadata option" where
  "fetchUrlMetadata rt u =
     (case parseURL rt u of
        None \<Rightarrow> None
      | Some parsed \<Rightarrow>
          Some \<lparr>title = ''Web Page'', description = ''A web page'',
                favicon = origin parsed @ ''/favicon.ico''\<rparr>)"

text \<open>
  \<open>findExistingLink\<close>: the first item of the URL-hash index, unless it has expired;
  an error of the store is caught and answered with \<open>null\<close>.
\<close>

definition findExistingLink :: "string \<Rightarrow> int \<Rightarrow> World \<Rightarrow> LinkItem option \<times> World" where
  "findExistingLink urlHash now w =
     (case QueryByUrlHash urlHash w of
        (Inl e, w') \<Rightarrow> (None, w')
      | (Inr [], w') \<Rightarrow> (None, w')
      | (Inr (item # _), w') \<Rightarrow>
          (if \<not> truthyN (expiresAt item) \<or> the (expiresAt item) > now
           then (Some item, w') else (None, w')))"

text \<open>\<open>checkShortCodeExists\<close>: an error of the store is caught and answered with \<open>true\<close>.\<close>

definition checkShortCodeExists :: "string \<Rightarrow> World \<Rightarrow> bool \<times> World" where
  "checkShortCodeExists code w =
     (case GetItem code w of
        (Inl e, w') \<Rightarrow> (True, w')
      | (Inr found, w') \<Rightarrow> (found \<noteq> None, w'))"

text \<open>
  \<open>generateUniqueShortCode\<close>, by the number of attempts that are left (the handler
  calls it with the default 5).
\<close>

fun generateUniqueShortCode :: "nat \<Rightarrow> World \<Rightarrow> ((Exn + string) \<times> World) option" where
  "generateUniqueShortCode 0 w =
     Some (Inl (JsError ''Failed to generate unique short code after maximum attempts''), w)"
| "generateUniqueShortCode (Suc n) w =
     (case generateShortCode (random w) of
        None \<Rightarrow> None
      | Some (code, rnd) \<Rightarrow>
          (let (found, w') = checkShortCodeExists code (w\<lparr>random := rnd\<rparr>)
           in if \<not> found then Some (Inr code, w')
              else generateUniqueShortCode n w'))"

definition maxAttempts :: nat where
  "maxAttempts = 5"

text \<open>The handler from the link item to the response, once the short code is chosen.\<close>

definition saveLink ::
  "Runtime \<Rightarrow> int \<Rightarrow> ValidatedData \<Rightarrow> string \<Rightarrow> string \<Rightarrow> bool \<Rightarrow> World
     \<Rightarrow> (Exn + CreateResponse) \<times> World" where
  "saveLink rt now v urlHash code custom w =
     (let linkItem =
            \<lparr>shortCode = code, originalUrl = vUrl v, originalUrlHash = urlHash,
             createdAt = now,
             expiresAt = (if truthyN (vExpiresIn v) then Some (now + the (vExpiresIn v) * 1000)
                          else None),
             userId = (if truthyS (vUserId v) then vUserId v else None),
             clickCount = 0, isCustom = custom,
             metadata = (if shouldFetchMetadata rt (vUrl v) then fetchUrlMetadata rt (vUrl v)
                         else None),
             lastClickAt = None\<rparr>
      in case PutItem linkItem w of
           (Inl e, w') \<Rightarrow> (Inl (StoreException e), w')
         | (Inr _, w') \<Rightarrow>
             (Inr (SuccessResponse
                \<lparr>rShortCode = code, shortUrl = createShortUrl rt code,
                 rOriginalUrl = vUrl v, created = True, rCreatedAt = now, rClickCount = 0,
                 rExpiresAt = (if truthyN (expiresAt linkItem) then expiresAt linkItem else None),
                 rMetadata = metadata linkItem\<rparr>), w'))"

text \<open>The body of the handler's \<open>try\<close>, after the check that the request has a body.\<close>

definition createLink ::
  "Runtime \<Rightarrow> int \<Rightarrow> RequestBody \<Rightarrow> World \<Rightarrow> ((Exn + CreateResponse) \<times> World) option" where
  "createLink rt now body w =
     (case body of
        NoBody \<Rightarrow> Some (Inr (ErrorResponse 400 ''Request body is required''), w)
      | Malformed \<Rightarrow> Some (Inl SyntaxError, w)
      | Json req \<Rightarrow>
          (case CreateLinkSchema rt req of
             Inl issues \<Rightarrow> Some (Inl (ZodError issues), w)
           | Inr v \<Rightarrow>
               (let urlHash = createUrlHash rt (vUrl v);
                    (existingLink, w1) = findExistingLink urlHash now w
                in case existingLink of
                     Some ex \<Rightarrow>
                       Some (Inr (SuccessResponse
                          \<lparr>rShortCode = shortCode ex,
                           shortUrl = createShortUrl rt (shortCode ex),
                           rOriginalUrl = originalUrl ex, created = False,
                           rCreatedAt = createdAt ex, rClickCount = clickCount ex,
                           rExpiresAt = None, rMetadata = None\<rparr>), w1)
                   | None \<Rightarrow>
                       (if truthyS (vCustomCode v) then
                          (let code = the (vCustomCode v);
                               (customExists, w2) = checkShortCodeExists code w1
                           in if customExists
                              then Some (Inr (ErrorResponse 409 ''Custom short code already exists''), w2)
                              else Some (saveLink rt now v urlHash code True w2))
                        else
                          (case generateUniqueShortCode maxAttempts w1 of
                             None \<Rightarrow> None
                           | Some (Inl e, w2) \<Rightarrow> Some (Inl e, w2)
                           | Some (Inr code, w2) \<Rightarrow>
                               Some (saveLink rt now v urlHash code False w2))))))"

text \<open>The handler's \<open>catch\<close>.\<close>

definition catchCreate :: "Exn \<Rightarrow> CreateResponse" where
  "catchCreate e =
     (case e of
        ZodError issues \<Rightarrow> ErrorResponse 400 (hd issues)
      | StoreException name \<Rightarrow>
          (if name = ''ConditionalCheckFailedException''
           then ErrorResponse 409 ''Short code already exists''
           else ErrorResponse 500 ''Internal server error'')
      | _ \<Rightarrow> ErrorResponse 500 ''Internal server error'')"

text \<open>
  The create handler. \<open>None\<close> stands for an invocation that does not return (the random
  source never completes a code).
\<close>

definition createHandler ::
  "Runtime \<Rightarrow> int \<Rightarrow> RequestBody \<Rightarrow> World \<Rightarrow> (CreateResponse \<times> World) option" where
  "createHandler rt now body w =
     (case createLink rt now body w of
        None \<Rightarrow> None
      | Some (Inl e, w') \<Rightarrow> Some (catchCreate e, w')
      | Some (Inr r, w') \<Rightarrow> Some (r, w'))"


section \<open>Redirect (lambda/redirect)\<close>

record RedirectEvent =
  pathShortCode :: "string option"
  reqHeaders :: "(string \<times> string) list"
  sourceIp :: "string option"

record AnalyticsEvent =
  aeShortCode :: string
  aeTimestamp :: int
  aeUserAgent :: "string option"
  aeReferer :: "string option"
  aeIp :: "string option"
  aeEventType :: EventType

text \<open>
  The response. The two HTML pages are kept as what they interpolate: the not-found
  page shows the short code, the expired page is a constant text.
\<close>

datatype RedirectBody = EmptyBody | NotFoundPage string | ExpiredPage | ErrorJson nat string

record RedirectResponse =
  rStatus :: nat
  rHeaders :: "(string \<times> string) list"
  rBody :: RedirectBody

definition header :: "RedirectEvent \<Rightarrow> string \<Rightarrow> string option" where
  "header ev name = map_of (reqHeaders ev) name"

text \<open>\<open>event.headers['Referer'] || event.headers['referer']\<close>.\<close>

definition refererOf :: "RedirectEvent \<Rightarrow> string option" where
  "refererOf ev = (if truthyS (header ev ''Referer'') then header ev ''Referer''
                   else header ev ''referer'')"

definition hashIP :: "Runtime \<Rightarrow> string \<Rightarrow> string" where
  "hashIP rt ip = take 16 (sha256hex rt (ip @ ipSalt rt))"

definition getCountryFromIP :: "string option \<Rightarrow> string" where
  "getCountryFromIP ip = (if \<not> truthyS ip then ''unknown'' else ''US'')"

text \<open>The item \<open>trackAnalytics\<close> builds; \<open>deviceInfo\<close> stays empty when the parser throws.\<close>

definition analyticsItem :: "Runtime \<Rightarrow> int \<Rightarrow> AnalyticsEvent \<Rightarrow> ClickItem" where
  "analyticsItem rt now ev =
     (let ua = parseUA rt (aeUserAgent ev)
      in \<lparr>evShortCode = aeShortCode ev,
          timestamp = now,
          eventType = aeEventType ev,
          userAgent = orElse (aeUserAgent ev) ''unknown'',
          referer = Some (orElse (aeReferer ev) ''direct''),
          ipHash = (if truthyS (aeIp ev) then hashIP rt (the (aeIp ev)) else ''unknown''),
          browser = map_option (\<lambda>r. orElse (browserName r) ''unknown'') ua,
          browserVersion = map_option (\<lambda>r. orElse (browserVersionUA r) ''unknown'') ua,
          os = map_option (\<lambda>r. orElse (osName r) ''unknown'') ua,
          osVersion = map_option (\<lambda>r. orElse (osVersionUA r) ''unknown'') ua,
          device = map_option (\<lambda>r. orElse (deviceType r) ''desktop'') ua,
          country = Some (getCountryFromIP (aeIp ev)),
          hourPartition = aeShortCode ev @ ''#'' @ showInt (now div (1000 * 60 * 60)),
          evExpiresAt = now div 1000 + 90 * 24 * 60 * 60\<rparr>)"

text \<open>\<open>trackAnalytics\<close>: an error of the store is caught and not propagated.\<close>

definition trackAnalytics :: "Runtime \<Rightarrow> int \<Rightarrow> AnalyticsEvent \<Rightarrow> World \<Rightarrow> World" where
  "trackAnalytics rt now ev w = snd (PutClick (analyticsItem rt now ev) w)"

text \<open>\<open>updateClickCount\<close>: an error of the store is caught and not propagated.\<close>

definition updateClickCount :: "string \<Rightarrow> int \<Rightarrow> World \<Rightarrow> World" where
  "updateClickCount code now w = snd (UpdateClickCount code now w)"

definition createNotFoundResponse :: "string \<Rightarrow> RedirectResponse" where
  "createNotFoundResponse code =
     \<lparr>rStatus = 404,
      rHeaders = [(''Content-Type'', ''text/html; charset=utf-8''),
                  (''Cache-Control'', ''no-cache, no-store, must-revalidate''),
                  (''X-Short-Code'', code)],
      rBody = NotFoundPage code\<rparr>"

definition createExpiredResponse :: RedirectResponse where
  "createExpiredResponse =
     \<lparr>rStatus = 410,
      rHeaders = [(''Content-Type'', ''text/html; charset=utf-8''),
                  (''Cache-Control'', ''no-cache, no-store, must-revalidate'')],
      rBody = ExpiredPage\<rparr>"

definition createErrorResponse :: "nat \<Rightarrow> string \<Rightarrow> RedirectResponse" where
  "createErrorResponse code message =
     \<lparr>rStatus = code,
      rHeaders = [(''Content-Type'', ''application/json''),
                  (''Access-Control-Allow-Origin'', ''*'')],
      rBody = ErrorJson code message\<rparr>"

definition trackedEvent :: "RedirectEvent \<Rightarrow> string \<Rightarrow> int \<Rightarrow> EventType \<Rightarrow> AnalyticsEvent" where
  "trackedEvent ev code now ty =
     \<lparr>aeShortCode = code, aeTimestamp = now, aeUserAgent = header ev ''User-Agent'',
      aeReferer = refererOf ev, aeIp = sourceIp ev, aeEventType = ty\<rparr>"

text \<open>
  The redirect handler. On the success path the two side effects are started and not
  awaited; the world returned is the one after they have settled (the counter update
  is the first of the two to reach \<open>send\<close>). Their outcome does not enter the response.
\<close>

definition redirectHandler ::
  "Runtime \<Rightarrow> int \<Rightarrow> RedirectEvent \<Rightarrow> World \<Rightarrow> RedirectResponse \<times> World" where
  "redirectHandler rt now ev w =
     (if \<not> truthyS (pathShortCode ev) then (createErrorResponse 400 ''Short code is required'', w)
      else
        (let code = the (pathShortCode ev)
         in case GetItem code w of
              (Inl e, w') \<Rightarrow> (createErrorResponse 500 ''Internal server error'', w')
            | (Inr None, w') \<Rightarrow>
                (createNotFoundResponse code,
                 trackAnalytics rt now (trackedEvent ev code now NOT_FOUND) w')
            | (Inr (Some linkItem), w') \<Rightarrow>
                (if truthyN (expiresAt linkItem) \<and> now > the (expiresAt linkItem)
                 then (createExpiredResponse,
                       trackAnalytics rt now (trackedEvent ev code now EXPIRED) w')
                 else
                   (\<lparr>rStatus = 301,
                     rHeaders = [(''Location'', originalUrl linkItem),
                                 (''Cache-Control'', ''public, max-age=300''),
                                 (''X-Response-Time'', showInt (now - now) @ ''ms''),
                                 (''X-Short-Code'', code)],
                     rBody = EmptyBody\<rparr>,
                    trackAnalytics rt now (trackedEvent ev code now SUCCESS)
                      (updateClickCount code now w')))))"


section \<open>Analytics (lambda/analytics)\<close>

subsection \<open>Numbers: the double arithmetic of \<open>Math.round((clicks / total) * 100)\<close>\<close>

text \<open>
  A JavaScript number is an IEEE 754 double. The quotients and products computed here
  are positive and far from the subnormal and the overflow range, so a double is kept
  as a pair \<open>(m, e)\<close> of integers with the value \<open>m * 2^e\<close> and \<open>0 \<le> m \<le> 2^53\<close>, and
  each operation returns the double nearest to the exact result, ties to the even
  mantissa.
\<close>

type_synonym double = "int \<times> int"

text \<open>The number of binary digits of a positive integer.\<close>

function bitLength :: "int \<Rightarrow> nat" where
  "bitLength n = (if n \<le> 0 then 0 else Suc (bitLength (n div 2)))"
  by pat_completeness auto
termination
  by (relation "measure nat") auto

declare bitLength.simps [simp del]

text \<open>The integer nearest to \<open>n / d\<close>, ties to even.\<close>

definition roundHalfEvenDiv :: "int \<Rightarrow> int \<Rightarrow> int" where
  "roundHalfEvenDiv n d =
     (let q = n div d; r = n mod d
      in if 2 * r < d then q else if 2 * r > d then q + 1
         else if even q then q else q + 1)"

text \<open>
  \<open>c / t\<close> for integers \<open>c \<ge> 0\<close> and \<open>t > 0\<close>: the exponent \<open>e\<close> is the one that puts
  the quotient's mantissa \<open>c / (t * 2^e)\<close> into \<open>[2^52, 2^53)\<close>.
\<close>

definition fdiv :: "nat \<Rightarrow> nat \<Rightarrow> double" where
  "fdiv c t =
     (if c = 0 then (0, 0)
      else
        (let e0 = int (bitLength (int c)) - int (bitLength (int t)) - 53;
             e = (if int c * 2 ^ nat (- e0) \<ge> 2 ^ 53 * (int t * 2 ^ nat e0)
                  then e0 + 1 else e0)
         in (roundHalfEvenDiv (int c * 2 ^ nat (- e)) (int t * 2 ^ nat e), e)))"

text \<open>The product of a double and a small integer.\<close>

definition fmul :: "double \<Rightarrow> nat \<Rightarrow> double" where
  "fmul x n =
     (let M = fst x * int n
      in if M < 2 ^ 53 then (M, snd x)
         else (let s = bitLength M - 53
               in (roundHalfEvenDiv M (2 ^ s), snd x + int s)))"

text \<open>\<open>Math.round\<close>: the integer nearest to the double, ties upwards.\<close>

definition mathRound :: "double \<Rightarrow> int" where
  "mathRound x =
     (if snd x \<ge> 0 then fst x * 2 ^ nat (snd x)
      else (2 * fst x + 2 ^ nat (- snd x)) div (2 * 2 ^ nat (- snd x)))"

text \<open>\<open>total > 0 ? Math.round((clicks / total) * 100) : 0\<close>.\<close>

definition percentageOf :: "nat \<Rightarrow> nat \<Rightarrow> int" where
  "percentageOf n tot = (if tot > 0 then mathRound (fmul (fdiv n tot) 100) else 0)"

subsection \<open>Objects used as counters\<close>

text \<open>
  A counter object \<open>{ [key: string]: number }\<close> is the list of its own properties in
  the order they were created. \<open>Object.entries\<close> lists the keys that are array indices
  first, in ascending numeric order, and then the other keys in creation order. Keys
  that name a property of \<open>Object.prototype\<close> are outside the model.
\<close>

type_synonym Counts = "(string \<times> nat) list"

text \<open>\<open>counts[key] = (counts[key] || 0) + 1\<close>.\<close>

definition bump :: "Counts \<Rightarrow> string \<Rightarrow> Counts" where
  "bump counts key =
     (if key \<in> set (map fst counts)
      then map (\<lambda>(k, n). if k = key then (k, n + 1) else (k, n)) counts
      else counts @ [(key, 1)])"

definition decimal :: "string \<Rightarrow> nat" where
  "decimal s = foldl (\<lambda>n c. 10 * n + (of_char c - 48)) 0 s"

definition isArrayIndex :: "string \<Rightarrow> bool" where
  "isArrayIndex k =
     (k \<noteq> [] \<and> list_all (\<lambda>c. c \<in> set ''0123456789'') k
      \<and> (k = ''0'' \<or> hd k \<noteq> CHR ''0'') \<and> decimal k < 2 ^ 32 - 1)"

definition objectEntries :: "Counts \<Rightarrow> Counts" where
  "objectEntries counts =
     sort_key (\<lambda>kv. decimal (fst kv)) (filter (\<lambda>kv. isArrayIndex (fst kv)) counts)
     @ filter (\<lambda>kv. \<not> isArrayIndex (fst kv)) counts"

subsection \<open>The breakdowns\<close>

record ReferrerStats =
  referrer :: string
  referrerClicks :: nat
  referrerPercentage :: int

record CountryStats =
  statCountry :: string
  countryClicks :: nat
  countryPercentage :: int

record DeviceStats =
  desktop :: nat
  mobile :: nat
  tablet :: nat
  unknown :: nat

record BrowserStats =
  statBrowser :: string
  statVersion :: string
  browserClicks :: nat
  browserPercentage :: int

text \<open>The key of an event in the referrer breakdown; \<open>new URL\<close> may throw.\<close>

definition referrerKey :: "Runtime \<Rightarrow> ClickItem \<Rightarrow> Exn + string" where
  "referrerKey rt ev =
     (if referer ev = Some ''direct'' then Inr ''Direct''
      else if truthyS (referer ev)
      then (case parseURL rt (the (referer ev)) of
              None \<Rightarrow> Inl (JsError ''Invalid URL'')
            | Some u \<Rightarrow> Inr (hostname u))
      else Inr ''Unknown'')"

fun countReferrers :: "Runtime \<Rightarrow> ClickItem list \<Rightarrow> Counts \<Rightarrow> Exn + Counts" where
  "countReferrers rt [] counts = Inr counts"
| "countReferrers rt (ev # evs) counts =
     (case referrerKey rt ev of
        Inl e \<Rightarrow> Inl e
      | Inr k \<Rightarrow> countReferrers rt evs (bump counts k))"

definition calculateReferrerStats :: "Runtime \<Rightarrow> ClickItem list \<Rightarrow> Exn + ReferrerStats list" where
  "calculateReferrerStats rt events =
     (case countReferrers rt events [] of
        Inl e \<Rightarrow> Inl e
      | Inr referrerCounts \<Rightarrow>
          Inr (take 10 (sort_key (\<lambda>s. - int (referrerClicks s))
                 (map (\<lambda>(k, n). \<lparr>referrer = k, referrerClicks = n,
                                 referrerPercentage = percentageOf n (length events)\<rparr>)
                    (objectEntries referrerCounts)))))"

definition calculateCountryStats :: "ClickItem list \<Rightarrow> CountryStats list" where
  "calculateCountryStats events =
     (let countryCounts = foldl (\<lambda>counts ev. bump counts (orElse (country ev) ''Unknown''))
                            [] events
      in take 10 (sort_key (\<lambda>s. - int (countryClicks s))
           (map (\<lambda>(k, n). \<lparr>statCountry = k, countryClicks = n,
                           countryPercentage = percentageOf n (length events)\<rparr>)
              (objectEntries countryCounts))))"

definition calculateDeviceStats :: "ClickItem list \<Rightarrow> DeviceStats" where
  "calculateDeviceStats events =
     foldl (\<lambda>stats ev.
              (let deviceType = toLowerCase (orElse (device ev) ''unknown'')
               in if deviceType = ''mobile'' then stats\<lparr>mobile := mobile stats + 1\<rparr>
                  else if deviceType = ''tablet'' then stats\<lparr>tablet := tablet stats + 1\<rparr>
                  else if deviceType = ''desktop'' \<or> deviceType = ''pc''
                  then stats\<lparr>desktop := desktop stats + 1\<rparr>
                  else stats\<lparr>unknown := unknown stats + 1\<rparr>))
       \<lparr>desktop = 0, mobile = 0, tablet = 0, unknown = 0\<rparr> events"

text \<open>\<open>s.split(' ')\<close> and \<open>parts.join(' ')\<close>.\<close>

fun splitOn :: "char \<Rightarrow> string \<Rightarrow> string list" where
  "splitOn d [] = [[]]"
| "splitOn d (c # cs) =
     (if c = d then [] # splitOn d cs
      else (case splitOn d cs of [] \<Rightarrow> [[c]] | p # ps \<Rightarrow> (c # p) # ps))"

fun joinWith :: "char \<Rightarrow> string list \<Rightarrow> string" where
  "joinWith d [] = []"
| "joinWith d [p] = p"
| "joinWith d (p # ps) = p @ d # joinWith d ps"

definition browserKey :: "ClickItem \<Rightarrow> string" where
  "browserKey ev =
     (let b = orElse (browser ev) ''Unknown'';
          version = orElse (browserVersion ev) []
      in if version \<noteq> [] then b @ '' '' @ version else b)"

definition calculateBrowserStats :: "ClickItem list \<Rightarrow> BrowserStats list" where
  "calculateBrowserStats events =
     (let browserCounts = foldl (\<lambda>counts ev. bump counts (browserKey ev)) [] events
      in take 10 (sort_key (\<lambda>s. - int (browserClicks s))
           (map (\<lambda>(k, n).
                   (let parts = splitOn CHR '' '' k;
                        version = joinWith CHR '' '' (tl parts)
                    in \<lparr>statBrowser = hd parts,
                        statVersion = (if version = [] then ''Unknown'' else version),
                        browserClicks = n,
                        browserPercentage = percentageOf n (length events)\<rparr>))
              (objectEntries browserCounts))))"


subsection \<open>Timeline and summary\<close>

record TimeRange =
  startTime :: int
  endTime :: int

text \<open>
  A timeline entry; \<open>period\<close>, the ISO rendering of \<open>timestamp\<close>, is kept as the same
  instant.
\<close>

record TimelineEntry =
  bucketStart :: int
  bucketClicks :: nat
  bucketUniqueClicks :: nat

definition calculateTimeRange :: "string \<Rightarrow> int \<Rightarrow> TimeRange" where
  "calculateTimeRange period now =
     \<lparr>startTime =
        (if period = ''1h'' then now - 60 * 60 * 1000
         else if period = ''24h'' then now - 24 * 60 * 60 * 1000
         else if period = ''7d'' then now - 7 * 24 * 60 * 60 * 1000
         else if period = ''30d'' then now - 30 * 24 * 60 * 60 * 1000
         else now - 24 * 60 * 60 * 1000),
      endTime = now\<rparr>"

definition intervalMs :: "string \<Rightarrow> int" where
  "intervalMs granularity =
     (if granularity = ''hour'' then 60 * 60 * 1000 else 24 * 60 * 60 * 1000)"

text \<open>The number of distinct values, \<open>new Set(xs).size\<close>.\<close>

definition setSize :: "string list \<Rightarrow> nat" where
  "setSize xs = length (remdups xs)"

text \<open>The loop of \<open>generateTimeline\<close>, from the bucket that starts at \<open>time\<close>.\<close>

function timelineFrom :: "ClickItem list \<Rightarrow> string \<Rightarrow> int \<Rightarrow> int \<Rightarrow> TimelineEntry list" where
  "timelineFrom events granularity endT time =
     (if time < endT then
        (let bucketEvents = filter (\<lambda>ev. timestamp ev \<ge> time
                                         \<and> timestamp ev < time + intervalMs granularity) events
         in \<lparr>bucketStart = time, bucketClicks = length bucketEvents,
             bucketUniqueClicks = setSize (map ipHash bucketEvents)\<rparr>
            # timelineFrom events granularity endT (time + intervalMs granularity))
      else [])"
  by pat_completeness auto
termination
  by (relation "measure (\<lambda>(events, granularity, endT, time). nat (endT - time))")
     (auto simp: intervalMs_def)

declare timelineFrom.simps [simp del]

definition generateTimeline :: "ClickItem list \<Rightarrow> TimeRange \<Rightarrow> string \<Rightarrow> TimelineEntry list" where
  "generateTimeline events timeRange granularity =
     timelineFrom events granularity (endTime timeRange) (startTime timeRange)"

record AnalyticsSummary =
  sCreatedAt :: int
  firstClick :: "int option"
  lastClick :: "int option"
  peakHour :: "int option"
  peakClicks :: nat
  avgClicksPerHour :: int

text \<open>
  \<open>generateSummary\<close>. The peak is the pair of \<open>period\<close> and \<open>clicks\<close> of the entry the
  \<open>reduce\<close> ends with; the start value of an empty timeline has no period.
\<close>

definition generateSummary ::
  "ClickItem list \<Rightarrow> LinkItem \<Rightarrow> TimelineEntry list \<Rightarrow> AnalyticsSummary" where
  "generateSummary events linkMetadata timeline =
     (let sortedEvents = sort_key timestamp events;
          peakEntry =
            foldl (\<lambda>mx entry. if bucketClicks entry > snd mx
                               then (Some (bucketStart entry), bucketClicks entry) else mx)
              (case timeline of [] \<Rightarrow> (None, 0)
               | t # _ \<Rightarrow> (Some (bucketStart t), bucketClicks t))
              timeline;
          totalHours = length timeline
      in \<lparr>sCreatedAt = createdAt linkMetadata,
          firstClick = (if length sortedEvents > 0 then Some (timestamp (hd sortedEvents))
                        else None),
          lastClick = (if length sortedEvents > 0 then Some (timestamp (last sortedEvents))
                       else None),
          peakHour = fst peakEntry,
          peakClicks = snd peakEntry,
          avgClicksPerHour = (if totalHours > 0
                              then mathRound (fdiv (length events) totalHours) else 0)\<rparr>)"

record AnalyticsData =
  totalClicks :: nat
  uniqueClicks :: nat
  period :: string
  granularity :: string
  timeline :: "TimelineEntry list"
  referrers :: "ReferrerStats list"
  countries :: "CountryStats list"
  devices :: DeviceStats
  browsers :: "BrowserStats list"
  summary :: AnalyticsSummary

text \<open>\<open>processAnalyticsData\<close>; it throws what \<open>calculateReferrerStats\<close> throws.\<close>

definition processAnalyticsData ::
  "Runtime \<Rightarrow> ClickItem list \<Rightarrow> LinkItem \<Rightarrow> string \<Rightarrow> string \<Rightarrow> TimeRange
     \<Rightarrow> Exn + AnalyticsData" where
  "processAnalyticsData rt events linkMetadata per gran timeRange =
     (let successEvents = filter (\<lambda>ev. eventType ev = SUCCESS) events;
          tline = generateTimeline successEvents timeRange gran
      in case calculateReferrerStats rt successEvents of
           Inl e \<Rightarrow> Inl e
         | Inr refs \<Rightarrow>
             Inr \<lparr>totalClicks = length successEvents,
                  uniqueClicks = setSize (map ipHash successEvents),
                  period = per,
                  granularity = gran,
                  timeline = tline,
                  referrers = refs,
                  countries = calculateCountryStats successEvents,
                  devices = calculateDeviceStats successEvents,
                  browsers = calculateBrowserStats successEvents,
                  summary = generateSummary successEvents linkMetadata tline\<rparr>)"

subsection \<open>Reading the event log\<close>

text \<open>
  \<open>QueryCommand\<close> on the analytics table with the key condition
  \<open>shortCode = :shortCode AND timestamp BETWEEN :startTime AND :endTime\<close>, the filter
  on the event type, \<open>Limit: 1000\<close> and \<open>ExclusiveStartKey\<close>. The store reads the
  items of the key range in the order of the sort key, at most \<open>Limit\<close> of them from
  the start key on, and applies the filter to what it has read; it returns a
  \<open>LastEvaluatedKey\<close> when it stopped at the limit. The key handed back and forth is
  kept as the number of items of the key range read so far.
\<close>

definition keyCondition :: "string \<Rightarrow> TimeRange \<Rightarrow> ClickItem \<Rightarrow> bool" where
  "keyCondition code timeRange ev =
     (evShortCode ev = code \<and> startTime timeRange \<le> timestamp ev
      \<and> timestamp ev \<le> endTime timeRange)"

definition filterExpression :: "string \<Rightarrow> ClickItem \<Rightarrow> bool" where
  "filterExpression includeEvents ev =
     (if includeEvents \<noteq> ''all''
      then (if includeEvents = ''success'' then eventType ev = SUCCESS
            else eventType ev \<noteq> SUCCESS)
      else True)"

definition pageLimit :: nat where
  "pageLimit = 1000"

definition keyRange :: "string \<Rightarrow> TimeRange \<Rightarrow> World \<Rightarrow> ClickItem list" where
  "keyRange code timeRange w =
     sort_key timestamp (filter (keyCondition code timeRange) (clickLog w))"

definition QueryClicks ::
  "string \<Rightarrow> TimeRange \<Rightarrow> string \<Rightarrow> nat option \<Rightarrow> World
     \<Rightarrow> (string + ClickItem list \<times> nat option) \<times> World" where
  "QueryClicks code timeRange includeEvents exclusiveStartKey =
     send (QueryClicksCall exclusiveStartKey)
       (\<lambda>w. (let start = (case exclusiveStartKey of None \<Rightarrow> 0 | Some k \<Rightarrow> k);
                  page = take pageLimit (drop start (keyRange code timeRange w))
              in (Inr (filter (filterExpression includeEvents) page,
                       if length page = pageLimit then Some (start + pageLimit) else None),
                  w)))"

text \<open>
  A page that comes with a key for the next one has moved the start by a full page;
  the loop below terminates by it.
\<close>

lemma nextEvent_clickLog: "clickLog (snd (nextEvent w)) = clickLog w"
  by (simp add: nextEvent_def split: list.split StoreEvent.split)

lemma QueryClicks_progress:
  assumes "QueryClicks code timeRange includeEvents key w = (Inr (items, Some k), w')"
  shows "length (keyRange code timeRange w') - k
           < length (keyRange code timeRange w) - (case key of None \<Rightarrow> 0 | Some j \<Rightarrow> j)"
proof -
  obtain ev w1 where ne: "nextEvent w = (ev, w1)" by (cases "nextEvent w")
  have cl: "clickLog w1 = clickLog w" using nextEvent_clickLog[of w] ne by simp
  have ev: "ev = None"
    using assms ne by (cases ev) (simp_all add: QueryClicks_def send_def recorded_def)
  define start where "start = (case key of None \<Rightarrow> 0 | Some j \<Rightarrow> j)"
  define page where "page = take pageLimit (drop start (keyRange code timeRange w1))"
  have out: "QueryClicks code timeRange includeEvents key w =
      (Inr (filter (filterExpression includeEvents) page,
            if length page = pageLimit then Some (start + pageLimit) else None),
       w1\<lparr>sent := sent w1 @ [(QueryClicksCall key, None)]\<rparr>)"
    using ne ev
    by (simp add: QueryClicks_def send_def recorded_def Let_def start_def page_def)
  have full: "length page = pageLimit" and k: "k = start + pageLimit"
    and w': "clickLog w' = clickLog w1"
    using assms unfolding out by (auto split: if_splits)
  have same: "keyRange code timeRange w' = keyRange code timeRange w"
    and same1: "keyRange code timeRange w1 = keyRange code timeRange w"
    using w' cl by (simp_all add: keyRange_def)
  have "start + pageLimit \<le> length (keyRange code timeRange w)"
    using full by (simp add: page_def same1 pageLimit_def)
  then show ?thesis
    using k by (simp add: same start_def[symmetric] pageLimit_def)
qed

text \<open>
  The \<open>do ... while (lastEvaluatedKey)\<close> loop of \<open>fetchClickEvents\<close>, with the events
  read so far and the key of the next page.
\<close>

function fetchLoop ::
  "string \<Rightarrow> TimeRange \<Rightarrow> string \<Rightarrow> ClickItem list \<Rightarrow> nat option \<Rightarrow> World
     \<Rightarrow> (string + ClickItem list) \<times> World" where
  "fetchLoop code timeRange includeEvents events lastEvaluatedKey w =
     (case QueryClicks code timeRange includeEvents lastEvaluatedKey w of
        (Inl e, w') \<Rightarrow> (Inl e, w')
      | (Inr (items, next), w') \<Rightarrow>
          (let events' = events @ items
           in if length events' > 10000 then (Inr events', w')
              else (case next of
                      None \<Rightarrow> (Inr events', w')
                    | Some k \<Rightarrow> fetchLoop code timeRange includeEvents events' (Some k) w')))"
  by pat_completeness auto
termination
proof (relation "measure (\<lambda>(code, timeRange, includeEvents, events, key, w).
          length (keyRange code timeRange w) - (case key of None \<Rightarrow> 0 | Some k \<Rightarrow> k))",
       goal_cases)
  case 1
  show ?case by simp
next
  case (2 code timeRange includeEvents events lastEvaluatedKey w x1 w' x2 items next' ev k)
  then have "QueryClicks code timeRange includeEvents lastEvaluatedKey w
               = (Inr (items, Some k), w')"
    by simp
  from QueryClicks_progress[OF this] show ?case by simp
qed

declare fetchLoop.simps [simp del]

text \<open>\<open>fetchClickEvents\<close>: an error of the store is caught and answered with no events.\<close>

definition fetchClickEvents ::
  "string \<Rightarrow> TimeRange \<Rightarrow> string \<Rightarrow> World \<Rightarrow> ClickItem list \<times> World" where
  "fetchClickEvents code timeRange includeEvents w =
     (case fetchLoop code timeRange includeEvents [] None w of
        (Inl e, w') \<Rightarrow> ([], w')
      | (Inr events, w') \<Rightarrow> (events, w'))"


section \<open>Sample inputs\<close>

text \<open>
  A runtime for the examples. Its URL parser knows the URL of the examples; its digest
  is a stand-in that tags the text (no example depends on the digits of a digest); its
  user-agent parser recognises nothing.
\<close>

definition sampleRuntime :: Runtime where
  "sampleRuntime =
     \<lparr>parseURL = (\<lambda>s. if s = ''https://example.com''
                        then Some \<lparr>hostname = ''example.com'', origin = ''https://example.com''\<rparr>
                        else None),
      sha256hex = (\<lambda>s. ''sha256:'' @ s),
      parseUA = (\<lambda>ua. Some \<lparr>browserName = None, browserVersionUA = None, osName = None,
                               osVersionUA = None, deviceType = None\<rparr>),
      domainName = ''sph.sh'',
      ipSalt = ''salt''\<rparr>"

text \<open>Empty tables, a store that serves every call, and the given random bytes.\<close>

definition freshWorld :: "nat list \<Rightarrow> World" where
  "freshWorld rnd = \<lparr>links = [], clickLog = [], schedule = [], sent = [], random = rnd\<rparr>"

definition sampleRequest :: CreateRequest where
  "sampleRequest =
     \<lparr>url = Some ''https://example.com'', customCode = None, expiresIn = None,
      reqUserId = None\<rparr>"

definition sampleLink :: LinkItem where
  "sampleLink =
     \<lparr>shortCode = ''AbC12xyz'', originalUrl = ''https://example.com'',
      originalUrlHash = ''sha256:https://example.com'', createdAt = 1700000000000,
      expiresAt = None, userId = None, clickCount = 0, isCustom = False, metadata = None,
      lastClickAt = None\<rparr>"

definition sampleEvent :: RedirectEvent where
  "sampleEvent =
     \<lparr>pathShortCode = Some ''AbC12xyz'',
      reqHeaders = [(''User-Agent'', ''curl/8.0''), (''Referer'', ''https://example.com'')],
      sourceIp = Some ''203.0.113.7''\<rparr>"

definition sampleClick :: ClickItem where
  "sampleClick =
     \<lparr>evShortCode = ''AbC12xyz'', timestamp = 0, eventType = SUCCESS,
      userAgent = ''curl/8.0'', referer = Some ''direct'', ipHash = ''0123456789abcdef'',
      browser = Some ''Chrome'', browserVersion = Some ''120'', os = None, osVersion = None,
      device = Some ''desktop'', country = Some ''US'', hourPartition = ''AbC12xyz#0'',
      evExpiresAt = 7776000\<rparr>"


text \<open>The digits and the letters, for comparison with the generator's alphabet.\<close>

definition alphanumerics :: string where
  "alphanumerics = ''0123456789ABCDEFGHIJKLMNOPQRSTUVWXYZabcdefghijklmnopqrstuvwxyz''"


text \<open>The commands an invocation sent, between the world it started in and the one it left.\<close>

definition sentBy :: "World \<Rightarrow> World \<Rightarrow> (StoreCall \<times> string option) list" where
  "sentBy w w' = drop (length (sent w)) (sent w')"



definition worldWith :: "LinkItem list \<Rightarrow> StoreEvent list \<Rightarrow> nat list \<Rightarrow> World" where
  "worldWith tbl evs rnd =
     \<lparr>links = tbl, clickLog = [], schedule = evs, sent = [], random = rnd\<rparr>"


text \<open>A recorded command that is an existence probe (\<open>GetItemCommand\<close>).\<close>

definition isProbe :: "StoreCall \<times> string option \<Rightarrow> bool" where
  "isProbe c = (case fst c of GetItemCall code \<Rightarrow> True | _ \<Rightarrow> False)"





text \<open>The sum of the four device buckets.\<close>

definition bucketSum :: "DeviceStats \<Rightarrow> nat" where
  "bucketSum s = desktop s + mobile s + tablet s + unknown s"


text \<open>
  An event log with \<open>n\<close> events of \<open>AbC12xyz\<close>, one per millisecond from instant 0, in a
  store that serves every call.
\<close>

definition clicksAt :: "nat \<Rightarrow> ClickItem list" where
  "clicksAt n = map (\<lambda>i. sampleClick\<lparr>timestamp := int i\<rparr>) [0..<n]"

definition logWorld :: "nat \<Rightarrow> World" where
  "logWorld n =
     \<lparr>links = [sampleLink], clickLog = clicksAt n, schedule = [], sent = [], random = []\<rparr>"


(*THEOREMS*)

section \<open>The rate limiter's quota\<close>








section \<open>The identifier generator's alphabet\<close>

lemma alphabet_set: "set alphabet = set alphanumerics - set ''01IOlo''"
  by code_simp

lemma alphabet_len: "length alphabet = 56 \<and> distinct alphabet"
  by (simp add: alphabet_def)

lemma nanoidFill_alphabet:
  "set ident \<subseteq> set alphabet \<Longrightarrow> set (nanoidFill bs ident) \<subseteq> set alphabet"
  by (induction bs arbitrary: ident) (auto simp: Let_def)

lemma nanoidLoop_alphabet:
  "nanoidLoop rnd ident = Some (code, rest) \<Longrightarrow> set ident \<subseteq> set alphabet
     \<Longrightarrow> set code \<subseteq> set alphabet"
proof (induction rnd ident rule: nanoidLoop.induct)
  case (1 rnd ident)
  show ?case
  proof (cases "length rnd < nanoidStep")
    case True
    with "1.prems" show ?thesis by (simp add: nanoidLoop.simps[of rnd ident])
  next
    case False
    let ?i = "nanoidFill (rev (take nanoidStep rnd)) ident"
    have sub: "set ?i \<subseteq> set alphabet" using "1.prems"(2) by (rule nanoidFill_alphabet)
    show ?thesis
    proof (cases "codeSize \<le> length ?i")
      case True
      with False "1.prems"(1) sub show ?thesis
        by (simp add: nanoidLoop.simps[of rnd ident] Let_def)
    next
      case c: False
      with False "1.prems"(1) have "nanoidLoop (drop nanoidStep rnd) ?i = Some (code, rest)"
        by (simp add: nanoidLoop.simps[of rnd ident] Let_def)
      with "1.IH"[OF False refl c _ sub] show ?thesis by simp
    qed
  qed
qed

lemma nanoidFill_length:
  "length ident < codeSize \<Longrightarrow> length (nanoidFill bs ident) \<le> codeSize"
  by (induction bs arbitrary: ident) (auto simp: Let_def)

lemma nanoidLoop_length:
  "nanoidLoop rnd ident = Some (code, rest) \<Longrightarrow> length ident < codeSize
     \<Longrightarrow> length code = codeSize"
proof (induction rnd ident rule: nanoidLoop.induct)
  case (1 rnd ident)
  show ?case
  proof (cases "length rnd < nanoidStep")
    case True
    with "1.prems" show ?thesis by (simp add: nanoidLoop.simps[of rnd ident])
  next
    case False
    let ?i = "nanoidFill (rev (take nanoidStep rnd)) ident"
    have sub: "length ?i \<le> codeSize" using "1.prems"(2) by (rule nanoidFill_length)
    show ?thesis
    proof (cases "codeSize \<le> length ?i")
      case True
      with False "1.prems"(1) sub show ?thesis
        by (auto simp add: nanoidLoop.simps[of rnd ident] Let_def)
    next
      case c: False
      with False "1.prems"(1) have "nanoidLoop (drop nanoidStep rnd) ?i = Some (code, rest)"
        by (simp add: nanoidLoop.simps[of rnd ident] Let_def)
      with "1.IH"[OF False refl c] c show ?thesis by simp
    qed
  qed
qed

text \<open>
  C9 (as amended). Every generated code has 8 characters, each drawn from the
  generator's alphabet, which has 56 symbols: the digits and the letters without
  \<open>0\<close>, \<open>1\<close>, \<open>I\<close>, \<open>O\<close>, \<open>l\<close> and \<open>o\<close>.
\<close>

theorem generateShortCode_alphabet:
  assumes "generateShortCode rnd = Some (code, rest)"
  shows "length code = 8 \<and> set code \<subseteq> set alphabet
         \<and> set alphabet = set alphanumerics - set ''01IOlo''
         \<and> length alphabet = 56 \<and> distinct alphabet"
  using assms nanoidLoop_alphabet[of rnd "[]" code rest] nanoidLoop_length[of rnd "[]" code rest]
    alphabet_set alphabet_len
  by (simp add: generateShortCode_def codeSize_def)

text \<open>A random source whose first batch holds seven bytes that are skipped.\<close>

theorem generateShortCode_alphabet_witness:
  "generateShortCode [60, 61, 62, 63, 56, 57, 58, 7, 6, 5, 4, 3, 2, 1, 0, 9] =
     Some (''23456789'', [9])
   \<and> length ''23456789'' = 8 \<and> set ''23456789'' \<subseteq> set alphabet"
  using generateShortCode_alphabet
    [of "[60, 61, 62, 63, 56, 57, 58, 7, 6, 5, 4, 3, 2, 1, 0, 9]" "''23456789''" "[9]"]
  by (simp add: generateShortCode_def nanoidLoop.simps nanoidStep_def nanoidMask_def
      codeSize_def alphabet_def alphanumerics_def Let_def)

text \<open>
  C9 as stated fails: the alphabet has 56 symbols, not 57; the letter \<open>o\<close> is among
  the digits and letters without \<open>0\<close>, \<open>1\<close>, \<open>I\<close>, \<open>O\<close>, \<open>l\<close> and is not in the
  alphabet.
\<close>

theorem alphabet_57_counterexample:
  "length alphabet = 56 \<and> length alphabet \<noteq> 57
   \<and> CHR ''o'' \<in> set alphanumerics - set ''01IOl'' \<and> CHR ''o'' \<notin> set alphabet"
  by (simp add: alphabet_def alphanumerics_def)



section \<open>The store commands\<close>

lemma nextEvent_sent: "sent (snd (nextEvent w)) = sent w"
  by (simp add: nextEvent_def split: list.split StoreEvent.split)

lemma nextEvent_random: "random (snd (nextEvent w)) = random w"
  by (simp add: nextEvent_def split: list.split StoreEvent.split)

lemma nextEvent_Throws:
  "schedule w = Throws e # es \<Longrightarrow> nextEvent w = (Some e, w\<lparr>schedule := es\<rparr>)"
  by (simp add: nextEvent_def)

lemma nextEvent_idle: "schedule w = [] \<Longrightarrow> nextEvent w = (None, w)"
  by (simp add: nextEvent_def)

lemma send_sent:
  assumes "\<And>v. sent (snd (serve v)) = sent v"
    and "send call serve w = (r, w')"
  shows "sent w' = sent w @ [(call, case r of Inl e \<Rightarrow> Some e | Inr _ \<Rightarrow> None)]"
proof -
  obtain ev w1 where ne: "nextEvent w = (ev, w1)" by (cases "nextEvent w")
  have s1: "sent w1 = sent w" using nextEvent_sent[of w] ne by simp
  show ?thesis
  proof (cases ev)
    case None
    with assms(2) ne assms(1)[of w1] s1 show ?thesis
      by (auto simp: send_def recorded_def)
  next
    case (Some e)
    with assms(2) ne s1 show ?thesis
      by (auto simp: send_def recorded_def)
  qed
qed

lemma GetItem_sent:
  "GetItem code w = (r, w') \<Longrightarrow>
     sent w' = sent w @ [(GetItemCall code, case r of Inl e \<Rightarrow> Some e | Inr _ \<Rightarrow> None)]"
  unfolding GetItem_def by (rule send_sent[rotated]) auto




section \<open>Resolving an expired link\<close>











section \<open>What the create handler sends\<close>

lemma QueryByUrlHash_sent:
  "QueryByUrlHash h w = (r, w') \<Longrightarrow>
     sent w' = sent w @ [(QueryUrlHashCall h, case r of Inl e \<Rightarrow> Some e | Inr _ \<Rightarrow> None)]"
  unfolding QueryByUrlHash_def by (rule send_sent[rotated]) auto

lemma PutItem_sent:
  "PutItem item w = (r, w') \<Longrightarrow>
     sent w' = sent w @ [(PutItemCall item, case r of Inl e \<Rightarrow> Some e | Inr _ \<Rightarrow> None)]"
  unfolding PutItem_def by (rule send_sent[rotated]) (auto split: option.splits)

lemma findExistingLink_sent:
  assumes "findExistingLink h now w = (r, w')"
  shows "\<exists>err. sent w' = sent w @ [(QueryUrlHashCall h, err)]"
proof -
  obtain q w1 where q: "QueryByUrlHash h w = (q, w1)" by (cases "QueryByUrlHash h w")
  have "w' = w1"
    using assms q by (auto simp: findExistingLink_def split: sum.splits list.splits if_splits)
  with QueryByUrlHash_sent[OF q] show ?thesis by blast
qed

lemma findExistingLink_Throws:
  "schedule w = Throws e # es \<Longrightarrow>
     findExistingLink h now w =
       (None, w\<lparr>schedule := es, sent := sent w @ [(QueryUrlHashCall h, Some e)]\<rparr>)"
  by (simp add: findExistingLink_def QueryByUrlHash_def send_def recorded_def nextEvent_Throws)

lemma checkShortCodeExists_sent:
  assumes "checkShortCodeExists code w = (b, w')"
  shows "\<exists>err. sent w' = sent w @ [(GetItemCall code, err)]"
proof -
  obtain q w1 where q: "GetItem code w = (q, w1)" by (cases "GetItem code w")
  have "w' = w1"
    using assms q by (auto simp: checkShortCodeExists_def split: sum.splits)
  with GetItem_sent[OF q] show ?thesis by blast
qed

lemma generateUniqueShortCode_sent:
  "generateUniqueShortCode n w = Some (r, w') \<Longrightarrow>
     \<exists>probes. sent w' = sent w @ probes \<and> length probes \<le> n \<and> list_all isProbe probes
       \<and> (case r of
             Inl e \<Rightarrow> e = JsError ''Failed to generate unique short code after maximum attempts''
                        \<and> length probes = n
           | Inr code \<Rightarrow> probes \<noteq> [] \<and> fst (last probes) = GetItemCall code)"
proof (induction n arbitrary: w)
  case 0
  then show ?case by auto
next
  case (Suc n)
  from Suc.prems obtain code rnd where g: "generateShortCode (random w) = Some (code, rnd)"
    by (auto split: option.splits)
  obtain found w1 where c: "checkShortCodeExists code (w\<lparr>random := rnd\<rparr>) = (found, w1)"
    by (cases "checkShortCodeExists code (w\<lparr>random := rnd\<rparr>)")
  from checkShortCodeExists_sent[OF c] obtain err
    where s1: "sent w1 = sent w @ [(GetItemCall code, err)]" by auto
  have pr: "isProbe (GetItemCall code, err)" by (simp add: isProbe_def)
  show ?case
  proof (cases found)
    case False
    with Suc.prems g c have "r = Inr code" "w' = w1" by auto
    with s1 pr show ?thesis
      by (intro exI[of _ "[(GetItemCall code, err)]"]) simp
  next
    case True
    with Suc.prems g c have "generateUniqueShortCode n w1 = Some (r, w')" by auto
    from Suc.IH[OF this] obtain probes where p: "sent w' = sent w1 @ probes"
      "length probes \<le> n" "list_all isProbe probes"
      "(case r of
             Inl e \<Rightarrow> e = JsError ''Failed to generate unique short code after maximum attempts''
                        \<and> length probes = n
           | Inr code \<Rightarrow> probes \<noteq> [] \<and> fst (last probes) = GetItemCall code)"
      by blast
    show ?thesis
      using p s1 pr
      by (intro exI[of _ "(GetItemCall code, err) # probes"])
         (auto split: sum.splits)
  qed
qed

lemma saveLink_sent:
  assumes "saveLink rt now v h code custom w = (r, w')"
  shows "\<exists>item err. sent w' = sent w @ [(PutItemCall item, err)] \<and> shortCode item = code
     \<and> (case err of
           None \<Rightarrow> (\<exists>d. r = Inr (SuccessResponse d) \<and> created d \<and> rShortCode d = code)
         | Some e \<Rightarrow> r = Inl (StoreException e))"
proof -
  define item where "item =
     \<lparr>shortCode = code, originalUrl = vUrl v, originalUrlHash = h,
             createdAt = now,
             expiresAt = (if truthyN (vExpiresIn v) then Some (now + the (vExpiresIn v) * 1000)
                          else None),
             userId = (if truthyS (vUserId v) then vUserId v else None),
             clickCount = 0, isCustom = custom,
             metadata = (if shouldFetchMetadata rt (vUrl v) then fetchUrlMetadata rt (vUrl v)
                         else None),
             lastClickAt = None\<rparr>"
  obtain q w1 where q: "PutItem item w = (q, w1)" by (cases "PutItem item w")
  have w: "w' = w1" and r: "(case q of Inl e \<Rightarrow> r = Inl (StoreException e)
       | Inr _ \<Rightarrow> (\<exists>d. r = Inr (SuccessResponse d) \<and> created d \<and> rShortCode d = code))"
    using assms q unfolding saveLink_def item_def[symmetric] Let_def
    by (auto split: sum.splits)
  have c: "shortCode item = code" by (simp add: item_def)
  show ?thesis
    using PutItem_sent[OF q] w r c
    by (intro exI[of _ item] exI[of _ "case q of Inl e \<Rightarrow> Some e | Inr _ \<Rightarrow> None"])
       (auto split: sum.splits)
qed


lemma sentBy_append: "sent w' = sent w @ xs \<Longrightarrow> sentBy w w' = xs"
  by (simp add: sentBy_def)

text \<open>The shape of what one invocation of the create handler sends, with its response.\<close>

lemma createHandler_shape:
  assumes "createHandler rt now body w = Some (resp, w')"
  shows "(sentBy w w' = [] \<and> (\<exists>m. resp = ErrorResponse 400 m
                                 \<or> resp = ErrorResponse 500 ''Internal server error''))
    \<or> (\<exists>h err. sentBy w w' = [(QueryUrlHashCall h, err)]
          \<and> (\<exists>d. resp = SuccessResponse d \<and> \<not> created d))
    \<or> (\<exists>h err probes.
          sentBy w w' = (QueryUrlHashCall h, err) # probes
          \<and> list_all isProbe probes
          \<and> (length probes = 1 \<and> resp = ErrorResponse 409 ''Custom short code already exists''
                 \<and> (\<exists>req. body = Json req \<and> truthyS (customCode req))
              \<or> length probes = maxAttempts
                 \<and> resp = ErrorResponse 500 ''Internal server error''))
    \<or> (\<exists>h err probes item perr.
          sentBy w w' = (QueryUrlHashCall h, err) # probes @ [(PutItemCall item, perr)]
          \<and> list_all isProbe probes \<and> probes \<noteq> [] \<and> length probes \<le> maxAttempts
          \<and> fst (last probes) = GetItemCall (shortCode item)
          \<and> (case perr of
                None \<Rightarrow> (\<exists>d. resp = SuccessResponse d \<and> created d
                             \<and> rShortCode d = shortCode item)
              | Some e \<Rightarrow> resp = catchCreate (StoreException e)))"
proof (cases body)
  case NoBody
  with assms have "w' = w" "resp = ErrorResponse 400 ''Request body is required''"
    by (auto simp: createHandler_def createLink_def)
  then show ?thesis by (simp add: sentBy_def)
next
  case Malformed
  with assms have "w' = w" "resp = ErrorResponse 500 ''Internal server error''"
    by (auto simp: createHandler_def createLink_def catchCreate_def)
  then show ?thesis by (simp add: sentBy_def)
next
  case (Json req)
  show ?thesis
  proof (cases "CreateLinkSchema rt req")
    case (Inl issues)
    with assms Json have "w' = w" "resp = ErrorResponse 400 (hd issues)"
      by (auto simp: createHandler_def createLink_def catchCreate_def)
    then show ?thesis by (simp add: sentBy_def)
  next
    case (Inr v)
    define h where "h = createUrlHash rt (vUrl v)"
    obtain ex w1 where f: "findExistingLink h now w = (ex, w1)"
      by (cases "findExistingLink h now w")
    from findExistingLink_sent[OF f] obtain err
      where s1: "sent w1 = sent w @ [(QueryUrlHashCall h, err)]" by auto
    have vc: "vCustomCode v = customCode req"
      using Inr by (auto simp: CreateLinkSchema_def Let_def split: list.splits option.splits)
    show ?thesis
    proof (cases ex)
      case (Some l)
      with assms Json Inr f have "w' = w1" "\<exists>d. resp = SuccessResponse d \<and> \<not> created d"
        by (auto simp: createHandler_def createLink_def h_def Let_def)
      with s1 show ?thesis by (auto simp: sentBy_def)
    next
      case None
      show ?thesis
      proof (cases "truthyS (vCustomCode v)")
        case True
        define code where "code = the (vCustomCode v)"
        obtain found w2 where c: "checkShortCodeExists code w1 = (found, w2)"
          by (cases "checkShortCodeExists code w1")
        from checkShortCodeExists_sent[OF c] obtain perr
          where s2: "sent w2 = sent w1 @ [(GetItemCall code, perr)]" by auto
        have pr: "isProbe (GetItemCall code, perr)" by (simp add: isProbe_def)
        show ?thesis
        proof (cases found)
          case t: True
          with assms Json Inr f None True c
          have "w' = w2" "resp = ErrorResponse 409 ''Custom short code already exists''"
            by (auto simp: createHandler_def createLink_def h_def code_def Let_def)
          with s1 s2 pr True vc Json have
            "sentBy w w' = (QueryUrlHashCall h, err) # [(GetItemCall code, perr)]
             \<and> list_all isProbe [(GetItemCall code, perr)]
             \<and> (length [(GetItemCall code, perr)] = 1
                  \<and> resp = ErrorResponse 409 ''Custom short code already exists''
                  \<and> (\<exists>req. body = Json req \<and> truthyS (customCode req)))"
            by (simp add: sentBy_def)
          then show ?thesis by blast
        next
          case False
          obtain r w3 where sv: "saveLink rt now v h code True w2 = (r, w3)"
            by (cases "saveLink rt now v h code True w2")
          with assms Json Inr f None True c False
          have w3: "w' = w3" and r: "resp = (case r of Inl e \<Rightarrow> catchCreate e | Inr x \<Rightarrow> x)"
            by (auto simp: createHandler_def createLink_def h_def code_def Let_def
                split: sum.splits)
          from saveLink_sent[OF sv] obtain item e3 where
            s3: "sent w3 = sent w2 @ [(PutItemCall item, e3)]" and sc: "shortCode item = code"
            and out: "(case e3 of
                None \<Rightarrow> (\<exists>d. r = Inr (SuccessResponse d) \<and> created d \<and> rShortCode d = code)
              | Some e \<Rightarrow> r = Inl (StoreException e))" by blast
          have "sentBy w w' = (QueryUrlHashCall h, err) # [(GetItemCall code, perr)]
                   @ [(PutItemCall item, e3)]
             \<and> list_all isProbe [(GetItemCall code, perr)] \<and> [(GetItemCall code, perr)] \<noteq> []
             \<and> length [(GetItemCall code, perr)] \<le> maxAttempts
             \<and> fst (last [(GetItemCall code, perr)]) = GetItemCall (shortCode item)
             \<and> (case e3 of
                  None \<Rightarrow> (\<exists>d. resp = SuccessResponse d \<and> created d
                               \<and> rShortCode d = shortCode item)
                | Some e \<Rightarrow> resp = catchCreate (StoreException e))"
            using s1 s2 s3 sc out pr w3 r
            by (auto simp: sentBy_def maxAttempts_def split: option.splits)
          then show ?thesis by blast
        qed
      next
        case False
        from assms Json Inr f None False obtain g w2 where
          gen: "generateUniqueShortCode maxAttempts w1 = Some (g, w2)"
          by (auto simp: createHandler_def createLink_def h_def Let_def split: option.splits)
        from generateUniqueShortCode_sent[OF gen] obtain probes where
          s2: "sent w2 = sent w1 @ probes" and len: "length probes \<le> maxAttempts"
          and pr: "list_all isProbe probes"
          and out2: "(case g of
             Inl e \<Rightarrow> e = JsError ''Failed to generate unique short code after maximum attempts''
                        \<and> length probes = maxAttempts
           | Inr code \<Rightarrow> probes \<noteq> [] \<and> fst (last probes) = GetItemCall code)"
          by blast
        show ?thesis
        proof (cases g)
          case (Inl e)
          with assms Json Inr f None False gen out2
          have "w' = w2" "resp = ErrorResponse 500 ''Internal server error''"
            by (auto simp: createHandler_def createLink_def h_def Let_def catchCreate_def)
          with s1 s2 pr out2 Inl have
            "sentBy w w' = (QueryUrlHashCall h, err) # probes \<and> list_all isProbe probes
             \<and> length probes = maxAttempts
             \<and> resp = ErrorResponse 500 ''Internal server error''"
            by (simp add: sentBy_def)
          then show ?thesis by blast
        next
          case (Inr code)
          obtain r w3 where sv: "saveLink rt now v h code False w2 = (r, w3)"
            by (cases "saveLink rt now v h code False w2")
          with assms Json \<open>CreateLinkSchema rt req = Inr v\<close> f None False gen Inr
          have w3: "w' = w3" and r: "resp = (case r of Inl e \<Rightarrow> catchCreate e | Inr x \<Rightarrow> x)"
            by (auto simp: createHandler_def createLink_def h_def Let_def split: sum.splits)
          from saveLink_sent[OF sv] obtain item e3 where
            s3: "sent w3 = sent w2 @ [(PutItemCall item, e3)]" and sc: "shortCode item = code"
            and out: "(case e3 of
                None \<Rightarrow> (\<exists>d. r = Inr (SuccessResponse d) \<and> created d \<and> rShortCode d = code)
              | Some e \<Rightarrow> r = Inl (StoreException e))" by blast
          have "sentBy w w' = (QueryUrlHashCall h, err) # probes @ [(PutItemCall item, e3)]
             \<and> list_all isProbe probes \<and> probes \<noteq> [] \<and> length probes \<le> maxAttempts
             \<and> fst (last probes) = GetItemCall (shortCode item)
             \<and> (case e3 of
                  None \<Rightarrow> (\<exists>d. resp = SuccessResponse d \<and> created d
                               \<and> rShortCode d = shortCode item)
                | Some e \<Rightarrow> resp = catchCreate (StoreException e))"
            using s1 s2 s3 sc out pr len out2 Inr w3 r
            by (auto simp: sentBy_def split: option.splits)
          then show ?thesis by blast
        qed
      qed
    qed
  qed
qed



section \<open>Reserved words in the create handler\<close>

text \<open>
  C3. The create handler validates with its own \<open>CreateLinkSchema\<close>, which has the
  pattern and no list of reserved words; the list is in \<open>ShortCodeSchema\<close> of the
  shared validation module, which the handler does not use. A request with the custom
  code \<open>api\<close>, which \<open>ShortCodeSchema\<close> rejects, is answered with 201 after the link
  item has been put.
\<close>

theorem create_reserved_code_is_written:
  "toLowerCase ''api'' \<in> set reservedWords
   \<and> ShortCodeSchema ''api'' = [''Short code cannot be a reserved word'']
   \<and> map_option (\<lambda>(r, w). (statusCode r, map shortCode (links w), map fst (sent w)))
        (createHandler sampleRuntime 1700000000000
           (Json (sampleRequest\<lparr>customCode := Some ''api''\<rparr>)) (freshWorld []))
     = Some (201, [''api''],
         [QueryUrlHashCall ''sha256:https://example.com'', GetItemCall ''api'',
          PutItemCall \<lparr>shortCode = ''api'', originalUrl = ''https://example.com'',
            originalUrlHash = ''sha256:https://example.com'', createdAt = 1700000000000,
            expiresAt = None, userId = None, clickCount = 0, isCustom = True,
            metadata = Some \<lparr>title = ''Web Page'', description = ''A web page'',
                              favicon = ''https://example.com/favicon.ico''\<rparr>,
            lastClickAt = None\<rparr>])"
  by code_simp

section \<open>Retries of the code generation\<close>





section \<open>Store errors on the critical path\<close>

lemma redirect_lookup_Throws:
  assumes "truthyS (pathShortCode ev)" and "schedule w = Throws e # es"
  shows "fst (redirectHandler rt now ev w) = createErrorResponse 500 ''Internal server error''"
  using assms
  by (simp add: redirectHandler_def GetItem_def send_def recorded_def nextEvent_Throws Let_def)

lemma create_write_error:
  assumes "createHandler rt now body w = Some (resp, w')"
    and "(PutItemCall item, Some e) \<in> set (sentBy w w')"
  shows "resp = catchCreate (StoreException e)"
proof -
  have np: "\<And>probes. list_all isProbe probes \<Longrightarrow> (PutItemCall item, Some e) \<notin> set probes"
    by (auto simp: list_all_iff isProbe_def)
  from createHandler_shape[OF assms(1)] assms(2) np show ?thesis
    by (elim disjE exE conjE) (auto split: option.splits)
qed

text \<open>
  C8 (as amended). An error of the store on the redirect handler's lookup is answered
  with 500. An error of the store on the create handler's put, other than the failed
  condition, is answered with 500. An error of the store on the create path's
  duplicate-URL lookup is caught: \<open>findExistingLink\<close> returns \<open>null\<close> and the creation
  goes on.
\<close>

theorem store_errors_on_the_critical_path:
  "(truthyS (pathShortCode ev) \<and> schedule w = Throws e # es
      \<longrightarrow> fst (redirectHandler rt now ev w) = createErrorResponse 500 ''Internal server error'')
   \<and> (createHandler rt now body w = Some (resp, w')
        \<and> (PutItemCall item, Some e) \<in> set (sentBy w w')
        \<and> e \<noteq> ''ConditionalCheckFailedException''
      \<longrightarrow> resp = ErrorResponse 500 ''Internal server error'')
   \<and> (schedule w = Throws e # es
      \<longrightarrow> findExistingLink h now w =
            (None, w\<lparr>schedule := es, sent := sent w @ [(QueryUrlHashCall h, Some e)]\<rparr>))"
  using redirect_lookup_Throws[of ev w e es rt now]
    create_write_error[of rt now body w resp w' item e]
    findExistingLink_Throws[of w e es h now]
  by (auto simp: catchCreate_def)

text \<open>The lookup of a redirect throws; the put of a creation throws; the duplicate
  lookup throws.\<close>

theorem store_errors_on_the_critical_path_witness:
  "fst (redirectHandler sampleRuntime 1700000000000 sampleEvent
          (worldWith [sampleLink] [Throws ''InternalServerError''] []))
     = createErrorResponse 500 ''Internal server error''
   \<and> map_option fst (createHandler sampleRuntime 1700000000000 (Json sampleRequest)
          (worldWith [] [Served, Served, Throws ''InternalServerError''] (replicate 15 0)))
     = Some (ErrorResponse 500 ''Internal server error'')
   \<and> fst (findExistingLink ''sha256:https://example.com'' 1700000000000
          (worldWith [sampleLink] [Throws ''InternalServerError''] [])) = None"
proof -
  let ?w = "worldWith [sampleLink] [Throws ''InternalServerError''] []"
  let ?v = "worldWith [] [Served, Served, Throws ''InternalServerError''] (replicate 15 0)"
  let ?item = "\<lparr>shortCode = ''22222222'', originalUrl = ''https://example.com'',
            originalUrlHash = ''sha256:https://example.com'', createdAt = 1700000000000,
            expiresAt = None, userId = None, clickCount = 0, isCustom = False,
            metadata = Some \<lparr>title = ''Web Page'', description = ''A web page'',
                              favicon = ''https://example.com/favicon.ico''\<rparr>,
            lastClickAt = None\<rparr>"
  let ?v' = "\<lparr>links = [], clickLog = [], schedule = [],
          sent = [(QueryUrlHashCall ''sha256:https://example.com'', None),
                  (GetItemCall ''22222222'', None),
                  (PutItemCall ?item, Some ''InternalServerError'')],
          random = []\<rparr>"
  have run: "createHandler sampleRuntime 1700000000000 (Json sampleRequest) ?v
      = Some (ErrorResponse 500 ''Internal server error'', ?v')"
    by code_simp
  have sent: "(PutItemCall ?item, Some ''InternalServerError'') \<in> set (sentBy ?v ?v')"
    by (simp add: sentBy_def worldWith_def)
  have t: "truthyS (pathShortCode sampleEvent)"
    by (simp add: truthyS_def sampleEvent_def)
  have s: "schedule ?w = Throws ''InternalServerError'' # []"
    by (simp add: worldWith_def)
  from store_errors_on_the_critical_path
    [of sampleEvent ?w "''InternalServerError''" "[]" sampleRuntime 1700000000000
        "Json sampleRequest" "ErrorResponse 500 ''Internal server error''" ?v' ?item
        "''sha256:https://example.com''"]
    t s run
  show ?thesis by simp
qed

text \<open>
  C8 as stated fails for the duplicate-URL lookup: the store throws on it, the handler
  answers 201 and has written a second link for a URL that has one.
\<close>

theorem store_errors_on_the_critical_path_counterexample:
  "map_option (\<lambda>(r, w). (statusCode r, map snd (sent w), map shortCode (links w)))
     (createHandler sampleRuntime 1700000000000 (Json sampleRequest)
        (worldWith [sampleLink] [Throws ''InternalServerError''] (replicate 15 0)))
   = Some (201, [Some ''InternalServerError'', None, None], [''AbC12xyz'', ''22222222''])"
  by code_simp



section \<open>Submitting a URL twice\<close>












section \<open>The device mix\<close>

lemma deviceStats_foldl:
  "bucketSum (foldl (\<lambda>stats ev.
              (let deviceType = toLowerCase (orElse (device ev) ''unknown'')
               in if deviceType = ''mobile'' then stats\<lparr>mobile := mobile stats + 1\<rparr>
                  else if deviceType = ''tablet'' then stats\<lparr>tablet := tablet stats + 1\<rparr>
                  else if deviceType = ''desktop'' \<or> deviceType = ''pc''
                  then stats\<lparr>desktop := desktop stats + 1\<rparr>
                  else stats\<lparr>unknown := unknown stats + 1\<rparr>)) s0 events)
     = bucketSum s0 + length events"
proof (induction events arbitrary: s0)
  case Nil
  show ?case by simp
next
  case (Cons ev events)
  show ?case
    by (simp only: foldl_Cons Cons.IH) (simp add: bucketSum_def Let_def)
qed

lemma calculateDeviceStats_total:
  "bucketSum (calculateDeviceStats events) = length events"
  unfolding calculateDeviceStats_def
  by (simp only: deviceStats_foldl) (simp add: bucketSum_def)

lemma processAnalyticsData_devices:
  assumes "processAnalyticsData rt events linkMetadata per gran timeRange = Inr d"
  shows "devices d = calculateDeviceStats (filter (\<lambda>ev. eventType ev = SUCCESS) events)"
    and "totalClicks d = length (filter (\<lambda>ev. eventType ev = SUCCESS) events)"
  using assms by (auto simp: processAnalyticsData_def Let_def split: sum.splits)

text \<open>
  C10. In every report that \<open>processAnalyticsData\<close> returns, the four device buckets
  add up to \<open>totalClicks\<close>, the number of \<open>SUCCESS\<close> events among the events it was
  given: each aggregated event is counted in exactly one bucket.
\<close>

theorem device_buckets_sum_to_total:
  assumes "processAnalyticsData rt events linkMetadata per gran timeRange = Inr d"
  shows "desktop (devices d) + mobile (devices d) + tablet (devices d) + unknown (devices d)
           = totalClicks d
       \<and> totalClicks d = length (filter (\<lambda>ev. eventType ev = SUCCESS) events)"
proof -
  let ?s = "filter (\<lambda>ev. eventType ev = SUCCESS) events"
  from processAnalyticsData_devices[OF assms] calculateDeviceStats_total[of ?s] show ?thesis
    by (simp add: bucketSum_def)
qed

text \<open>Three \<open>SUCCESS\<close> events (desktop, \<open>Mobile\<close>, no device) and one \<open>NOT_FOUND\<close> event.\<close>

theorem device_buckets_sum_to_total_witness:
  "\<exists>d. processAnalyticsData sampleRuntime
          [sampleClick, sampleClick\<lparr>timestamp := 1, device := Some ''Mobile''\<rparr>,
           sampleClick\<lparr>timestamp := 2, eventType := NOT_FOUND\<rparr>,
           sampleClick\<lparr>timestamp := 3, device := None\<rparr>]
          sampleLink ''1h'' ''hour'' \<lparr>startTime = 0, endTime = 3600000\<rparr> = Inr d
       \<and> devices d = \<lparr>desktop = 1, mobile = 1, tablet = 0, unknown = 1\<rparr>
       \<and> desktop (devices d) + mobile (devices d) + tablet (devices d) + unknown (devices d) = 3
       \<and> totalClicks d = 3"
proof -
  let ?evs = "[sampleClick, sampleClick\<lparr>timestamp := 1, device := Some ''Mobile''\<rparr>,
           sampleClick\<lparr>timestamp := 2, eventType := NOT_FOUND\<rparr>,
           sampleClick\<lparr>timestamp := 3, device := None\<rparr>]"
  have "\<exists>d. processAnalyticsData sampleRuntime ?evs sampleLink ''1h'' ''hour''
          \<lparr>startTime = 0, endTime = 3600000\<rparr> = Inr d"
    by (simp add: processAnalyticsData_def Let_def calculateReferrerStats_def referrerKey_def
          sampleClick_def truthyS_def)
  then obtain d where d: "processAnalyticsData sampleRuntime ?evs sampleLink ''1h'' ''hour''
          \<lparr>startTime = 0, endTime = 3600000\<rparr> = Inr d" ..
  have "calculateDeviceStats (filter (\<lambda>ev. eventType ev = SUCCESS) ?evs)
          = \<lparr>desktop = 1, mobile = 1, tablet = 0, unknown = 1\<rparr>"
    by code_simp
  with processAnalyticsData_devices(1)[OF d]
  have dev: "devices d = \<lparr>desktop = 1, mobile = 1, tablet = 0, unknown = 1\<rparr>" by simp
  from device_buckets_sum_to_total[OF d] d dev show ?thesis
    by (intro exI[of _ d]) simp
qed



section \<open>The cap on the events read\<close>

lemma QueryClicks_idle:
  assumes "schedule w = []"
  shows "QueryClicks code timeRange includeEvents key w =
     (let start = (case key of None \<Rightarrow> 0 | Some k \<Rightarrow> k);
          page = take pageLimit (drop start (keyRange code timeRange w))
      in (Inr (filter (filterExpression includeEvents) page,
               if length page = pageLimit then Some (start + pageLimit) else None),
          w\<lparr>sent := sent w @ [(QueryClicksCall key, None)]\<rparr>))"
  using assms by (simp add: QueryClicks_def send_def recorded_def nextEvent_idle Let_def)

lemma filterExpression_all: "filter (filterExpression ''all'') xs = xs"
  by (simp add: filterExpression_def)

lemma keyRange_sent: "keyRange code timeRange (w\<lparr>sent := s\<rparr>) = keyRange code timeRange w"
  by (simp add: keyRange_def)

lemma fetchLoop_pages:
  assumes len: "length xs = 11000"
  shows "j \<le> 10 \<Longrightarrow> schedule w = [] \<Longrightarrow> keyRange code timeRange w = xs \<Longrightarrow>
     (case key of None \<Rightarrow> 0 | Some k \<Rightarrow> k) = 1000 * (10 - j) \<Longrightarrow>
     fst (fetchLoop code timeRange ''all'' (take (1000 * (10 - j)) xs) key w) = Inr xs"
proof (induction j arbitrary: w key)
  case 0
  have "take 10000 xs @ take 1000 (drop 10000 xs) = xs"
    using len by (simp add: take_add[symmetric])
  with 0 len show ?case
    by (subst fetchLoop.simps)
       (simp add: QueryClicks_idle filterExpression_all pageLimit_def Let_def)
next
  case (Suc j)
  let ?k = "10 - Suc j"
  let ?w' = "w\<lparr>sent := sent w @ [(QueryClicksCall key, None)]\<rparr>"
  have k: "10 - j = Suc ?k" using Suc.prems(1) by simp
  have ev: "take (1000 * ?k) xs @ take 1000 (drop (1000 * ?k) xs) = take (1000 * (10 - j)) xs"
    unfolding k by (simp add: take_add[symmetric] add.commute)
  have full: "length (take 1000 (drop (1000 * ?k) xs)) = 1000"
    using len Suc.prems(1) by simp
  have small: "\<not> 10000 < length (take (1000 * (10 - j)) xs)"
    using len by simp
  have next_key: "1000 * ?k + 1000 = 1000 * (10 - j)" unfolding k by simp
  have ih: "fst (fetchLoop code timeRange ''all'' (take (1000 * (10 - j)) xs)
                  (Some (1000 * (10 - j))) ?w') = Inr xs"
    using Suc.prems by (intro Suc.IH) (simp_all add: keyRange_sent)
  show ?case
    using Suc.prems(2,3,4) ev full small ih next_key
    by (subst fetchLoop.simps)
       (simp add: QueryClicks_idle filterExpression_all pageLimit_def Let_def)
qed

lemma clicksAt_keyRange:
  assumes "int n \<le> e + 1"
  shows "keyRange ''AbC12xyz'' \<lparr>startTime = 0, endTime = e\<rparr> (logWorld n) = clicksAt n"
proof -
  have all: "filter (keyCondition ''AbC12xyz'' \<lparr>startTime = 0, endTime = e\<rparr>) (clicksAt n)
               = clicksAt n"
    using assms by (auto simp: clicksAt_def keyCondition_def sampleClick_def filter_map
          intro!: filter_True)
  have "map timestamp (clicksAt n) = map int [0..<n]"
    by (simp add: clicksAt_def)
  then have "sorted (map timestamp (clicksAt n))"
    by (simp add: sorted_map sorted_wrt_map sorted_wrt_iff_nth_less)
  then show ?thesis
    by (simp add: keyRange_def logWorld_def all sort_key_id_if_sorted)
qed

text \<open>
  C5. The loop tests \<open>events.length > 10000\<close> after a page has been appended and
  returns all it has appended. With 11000 events of the short code in the window, ten
  pages make 10000 events, which is not more than 10000, the eleventh page is read, and
  \<open>fetchClickEvents\<close> returns 11000 events.
\<close>

theorem fetchClickEvents_exceeds_cap:
  "length (fst (fetchClickEvents ''AbC12xyz'' \<lparr>startTime = 0, endTime = 86400000\<rparr> ''all''
             (logWorld 11000))) = 11000"
proof -
  have len: "length (clicksAt 11000) = 11000" by (simp add: clicksAt_def)
  have "fst (fetchLoop ''AbC12xyz'' \<lparr>startTime = 0, endTime = 86400000\<rparr> ''all''
            (take (1000 * (10 - 10)) (clicksAt 11000)) None (logWorld 11000))
          = Inr (clicksAt 11000)"
    by (rule fetchLoop_pages[OF len]) (simp_all add: logWorld_def clicksAt_keyRange[unfolded logWorld_def])
  then have "fst (fetchLoop ''AbC12xyz'' \<lparr>startTime = 0, endTime = 86400000\<rparr> ''all''
            [] None (logWorld 11000)) = Inr (clicksAt 11000)"
    by simp
  then have "fst (fetchClickEvents ''AbC12xyz'' \<lparr>startTime = 0, endTime = 86400000\<rparr> ''all''
             (logWorld 11000)) = clicksAt 11000"
    by (auto simp: fetchClickEvents_def split: prod.splits sum.splits)
  then show ?thesis using len by simp
qed


end
